theory Spec2Isabelle
  imports Complex_Main "HOL-Library.AList"
begin

section \<open>Values, errors and Python primitives\<close>

text \<open>
  The experiment configurations are read with \<^verbatim>\<open>json.load\<close>: every configuration is a
  Python dictionary from field names to JSON values. A dictionary is modelled as an
  association list in insertion order; \<^verbatim>\<open>entry in d\<close> is \<open>map_of d entry \<noteq> None\<close> and
  \<^verbatim>\<open>d[entry] = v\<close> is \<open>AList.update entry v d\<close> (an existing key keeps its place, a new
  key is appended, as in Python). Python floats are modelled by the real number their
  literal denotes. The result dictionary of an evaluation holds numbers and matrices.
\<close>

datatype mvalue = MNum real | MMat "real list list"

type_synonym results = "(string \<times> mvalue) list"

datatype jvalue =
    JNull
  | JBool bool
  | JInt int
  | JFloat real
  | JStr string
  | JDict results

type_synonym config = "(string \<times> jvalue) list"

datatype py_error =
    IndexError
  | KeyError
  | TypeError
  | NameError
  | UnboundLocalError
  | AttributeError
  | ZeroDivisionError
  | OSError

definition bind_err :: "py_error + 'a \<Rightarrow> ('a \<Rightarrow> py_error + 'b) \<Rightarrow> py_error + 'b" where
  "bind_err r f = (case r of Inl e \<Rightarrow> Inl e | Inr x \<Rightarrow> f x)"

text \<open>
  \<^verbatim>\<open>xs[i]\<close> on a list of length \<open>n\<close>: the position read is \<open>i\<close> for \<open>0 \<le> i < n\<close>, it
  is \<open>n + i\<close> for \<open>-n \<le> i < 0\<close>, and any other index raises \<^verbatim>\<open>IndexError\<close>.
\<close>

definition py_index_position :: "nat \<Rightarrow> int \<Rightarrow> py_error + nat" where
  "py_index_position n i =
     (if 0 \<le> i \<and> i < int n then Inr (nat i)
      else if i < 0 \<and> - int n \<le> i then Inr (nat (int n + i))
      else Inl IndexError)"

definition py_index :: "'a list \<Rightarrow> int \<Rightarrow> py_error + 'a" where
  "py_index xs i = bind_err (py_index_position (length xs) i) (\<lambda>p. Inr (xs ! p))"

text \<open>The bound \<open>k\<close> of the slices \<^verbatim>\<open>xs[:k]\<close> and \<^verbatim>\<open>xs[k:]\<close> of a list of length \<open>n\<close>.\<close>

definition py_slice_bound :: "nat \<Rightarrow> int \<Rightarrow> nat" where
  "py_slice_bound n k = (if k < 0 then nat (int n + k) else min n (nat k))"

definition py_getitem :: "('k \<times> 'v) list \<Rightarrow> 'k \<Rightarrow> py_error + 'v" where
  "py_getitem d k = (case map_of d k of None \<Rightarrow> Inl KeyError | Some v \<Rightarrow> Inr v)"

text \<open>\<^verbatim>\<open>v == 'text'\<close>, \<^verbatim>\<open>v == 0\<close>, the truth value of \<^verbatim>\<open>v\<close> and \<^verbatim>\<open>i - v\<close> used as a list index.\<close>

definition py_eq_str :: "jvalue \<Rightarrow> string \<Rightarrow> bool" where
  "py_eq_str v s = (v = JStr s)"

definition py_eq_zero :: "jvalue \<Rightarrow> bool" where
  "py_eq_zero v = (v = JInt 0 \<or> v = JFloat 0 \<or> v = JBool False)"

definition py_truthy :: "jvalue \<Rightarrow> bool" where
  "py_truthy v =
     (case v of
        JNull \<Rightarrow> False
      | JBool b \<Rightarrow> b
      | JInt n \<Rightarrow> n \<noteq> 0
      | JFloat r \<Rightarrow> r \<noteq> 0
      | JStr s \<Rightarrow> s \<noteq> []
      | JDict d \<Rightarrow> d \<noteq> [])"

definition py_int_minus :: "int \<Rightarrow> jvalue \<Rightarrow> py_error + int" where
  "py_int_minus i v =
     (case v of
        JInt n \<Rightarrow> Inr (i - n)
      | JBool b \<Rightarrow> Inr (i - (if b then 1 else 0))
      | _ \<Rightarrow> Inl TypeError)"

definition py_number :: "jvalue \<Rightarrow> real option" where
  "py_number v =
     (case v of
        JInt n \<Rightarrow> Some (of_int n)
      | JFloat r \<Rightarrow> Some r
      | JBool b \<Rightarrow> Some (if b then 1 else 0)
      | _ \<Rightarrow> None)"

section \<open>Models (\<^verbatim>\<open>self_har_models.py\<close>)\<close>

text \<open>
  A Keras layer has a kind, a name (given with \<^verbatim>\<open>name=\<close>, or generated by Keras) and the
  flag \<^verbatim>\<open>trainable\<close>. A functional model is itself a layer: it owns the layer objects of
  its graph, here in the order in which the source creates them, each with the positions
  of the layers whose output it is called on. \<open>model_outputs\<close> are the positions of the
  layers that produce the outputs, in the order given to \<^verbatim>\<open>tf.keras.Model\<close>, and
  \<open>layer_order\<close> is the order in which the attribute \<^verbatim>\<open>layers\<close> lists the layer objects.
  Weights, losses and the compiled optimizer are not represented.
\<close>

datatype layer = Layer (layer_kind: layer_kind) (layer_name: "string option") (trainable: bool)
and layer_kind =
    InputLayer "nat list"
  | Conv1D nat nat string
  | Dropout
  | GlobalMaxPool1D
  | Dense nat string
  | Softmax
  | Functional (nodes: "(layer \<times> nat list) list") (model_inputs: "nat list")
      (model_outputs: "nat list") (layer_order: "nat list")

text \<open>
  The order of \<^verbatim>\<open>layers\<close> is computed by Keras, not by this repository. It is a
  parameter of the model: a function from the graph (the inbound positions of every
  layer object) and the outputs to the listing.
\<close>

type_synonym layer_listing = "nat list list \<Rightarrow> nat list \<Rightarrow> nat list"

definition keras_Model ::
  "layer_listing \<Rightarrow> (layer \<times> nat list) list \<Rightarrow> nat list \<Rightarrow> nat list \<Rightarrow> string \<Rightarrow> layer" where
  "keras_Model lo ns ins outs name =
     Layer (Functional ns ins outs (lo (map snd ns) outs)) (Some name) True"

definition layers :: "layer \<Rightarrow> py_error + layer list" where
  "layers model =
     (case layer_kind model of
        Functional ns ins outs ord \<Rightarrow> Inr (map (\<lambda>k. fst (ns ! k)) ord)
      | _ \<Rightarrow> Inl AttributeError)"


text \<open>\<^verbatim>\<open>core_model.input.shape[1:]\<close> of a model with one input layer.\<close>

definition input_shape_of :: "layer \<Rightarrow> py_error + nat list" where
  "input_shape_of model =
     (case layer_kind model of
        Functional ns ins outs ord \<Rightarrow>
          (case ins of
             [i] \<Rightarrow> (if i < length ns
                      then (case layer_kind (fst (ns ! i)) of
                              InputLayer shape \<Rightarrow> Inr shape
                            | _ \<Rightarrow> Inl AttributeError)
                      else Inl AttributeError)
           | _ \<Rightarrow> Inl AttributeError)
      | _ \<Rightarrow> Inl AttributeError)"

definition create_1d_conv_core_model :: "layer_listing \<Rightarrow> nat list \<Rightarrow> string \<Rightarrow> layer" where
  "create_1d_conv_core_model lo input_shape model_name =
     keras_Model lo
       [(Layer (InputLayer input_shape) (Some ''input'') True, []),
        (Layer (Conv1D 32 24 ''relu'') None True, [0]),
        (Layer Dropout None True, [1]),
        (Layer (Conv1D 64 16 ''relu'') None True, [2]),
        (Layer Dropout None True, [3]),
        (Layer (Conv1D 96 8 ''relu'') None True, [4]),
        (Layer Dropout None True, [5]),
        (Layer GlobalMaxPool1D (Some ''global_max_pooling1d'') True, [6])]
       [0] [7] model_name"

definition extract_core_model :: "layer \<Rightarrow> py_error + layer" where
  "extract_core_model composite_model =
     bind_err (layers composite_model) (\<lambda>ls. py_index ls 1)"

text \<open>
  \<^verbatim>\<open>extract_har_model\<close> builds a new model over the same layer objects, from the inputs of
  the multi-task model to the output selected by \<^verbatim>\<open>output_index\<close>.
\<close>

definition extract_har_model :: "layer_listing \<Rightarrow> layer \<Rightarrow> int \<Rightarrow> string \<Rightarrow> py_error + layer" where
  "extract_har_model lo multitask_model output_index model_name =
     (case layer_kind multitask_model of
        Functional ns ins outs ord \<Rightarrow>
          bind_err (py_index outs output_index)
            (\<lambda>out. Inr (keras_Model lo ns ins [out] model_name))
      | _ \<Rightarrow> Inl AttributeError)"

text \<open>
  \<^verbatim>\<open>set_freeze_layers\<close> assigns \<^verbatim>\<open>layer.trainable\<close> on the layer objects in place; the
  model returns the model with the updated objects.
\<close>

definition with_trainable :: "bool \<Rightarrow> layer \<Rightarrow> layer" where
  "with_trainable b l = Layer (layer_kind l) (layer_name l) b"

definition set_trainable :: "bool \<Rightarrow> (layer \<times> nat list) list \<Rightarrow> nat \<Rightarrow> (layer \<times> nat list) list" where
  "set_trainable b ns k = ns[k := (with_trainable b (fst (ns ! k)), snd (ns ! k))]"

definition set_freeze_layers :: "layer \<Rightarrow> int option \<Rightarrow> py_error + layer" where
  "set_freeze_layers model num_freeze_layer_index =
     (case layer_kind model of
        Functional ns ins outs ord \<Rightarrow>
          (case num_freeze_layer_index of
             None \<Rightarrow>
               Inr (Layer (Functional (foldl (set_trainable False) ns ord) ins outs ord)
                      (layer_name model) (trainable model))
           | Some idx \<Rightarrow>
               Inr (Layer (Functional
                      (foldl (set_trainable True)
                         (foldl (set_trainable False) ns (take (py_slice_bound (length ord) idx) ord))
                         (drop (py_slice_bound (length ord) idx) ord))
                      ins outs ord)
                    (layer_name model) (trainable model)))
      | _ \<Rightarrow> Inl AttributeError)"

definition attach_full_har_classification_head ::
  "layer_listing \<Rightarrow> layer \<Rightarrow> nat \<Rightarrow> nat \<Rightarrow> string \<Rightarrow> py_error + layer" where
  "attach_full_har_classification_head lo core_model output_shape num_units model_name =
     bind_err (input_shape_of core_model) (\<lambda>shape.
       Inr (keras_Model lo
         [(Layer (InputLayer shape) (Some ''input'') True, []),
          (core_model, [0]),
          (Layer (Dense num_units ''relu'') None True, [1]),
          (Layer (Dense output_shape ''linear'') None True, [2]),
          (Layer Softmax None True, [3])]
         [0] [4] model_name))"

definition attach_linear_classification_head ::
  "layer_listing \<Rightarrow> layer \<Rightarrow> nat \<Rightarrow> string \<Rightarrow> py_error + layer" where
  "attach_linear_classification_head lo core_model output_shape model_name =
     bind_err (input_shape_of core_model) (\<lambda>shape.
       Inr (keras_Model lo
         [(Layer (InputLayer shape) (Some ''input'') True, []),
          (core_model, [0]),
          (Layer (Dense output_shape ''linear'') None True, [1]),
          (Layer Softmax None True, [2])]
         [0] [3] model_name))"

text \<open>
  The loop over \<^verbatim>\<open>output_tasks\<close>: each task adds a hidden layer on the output of the core
  model and a sigmoid layer named after the task; \<open>n\<close> is the position of the next
  layer object created.
\<close>

fun task_heads :: "nat \<Rightarrow> string list \<Rightarrow> (layer \<times> nat list) list" where
  "task_heads n [] = []"
| "task_heads n (task # tasks) =
     (Layer (Dense 256 ''relu'') None True, [1])
     # (Layer (Dense 1 ''sigmoid'') (Some task) True, [n])
     # task_heads (n + 2) tasks"

fun task_outputs :: "nat \<Rightarrow> string list \<Rightarrow> nat list" where
  "task_outputs n [] = []"
| "task_outputs n (task # tasks) = (n + 1) # task_outputs (n + 2) tasks"

definition attach_multitask_transform_head ::
  "layer_listing \<Rightarrow> layer \<Rightarrow> string list \<Rightarrow> bool \<Rightarrow> nat option \<Rightarrow> nat \<Rightarrow> string
     \<Rightarrow> py_error + layer" where
  "attach_multitask_transform_head lo core_model output_tasks with_har_head har_output_shape
       num_units_har model_name =
     bind_err (input_shape_of core_model) (\<lambda>shape.
       let ns = [(Layer (InputLayer shape) (Some ''input'') True, []), (core_model, [0])]
                  @ task_heads 2 output_tasks;
           outs = task_outputs 2 output_tasks
       in if with_har_head
          then (case har_output_shape of
                  None \<Rightarrow> Inl TypeError
                | Some n \<Rightarrow>
                    Inr (keras_Model lo
                      (ns @ [(Layer (Dense num_units_har ''relu'') None True, [1]),
                             (Layer (Dense n ''linear'') None True, [length ns]),
                             (Layer Softmax (Some ''har'') True, [length ns + 1])])
                      [0] (outs @ [length ns + 2]) model_name))
          else Inr (keras_Model lo ns [0] outs model_name))"

text \<open>
  What is used of Keras about the order of \<^verbatim>\<open>layers\<close>: no layer object is listed twice,
  the layers that produce the outputs are listed, and every listed layer comes after all
  the layers whose output it is called on.
\<close>

definition precedes :: "nat list \<Rightarrow> nat \<Rightarrow> nat \<Rightarrow> bool" where
  "precedes ord p k = (p \<in> set (takeWhile (\<lambda>x. x \<noteq> k) ord))"

definition dataflow_order :: "nat list list \<Rightarrow> nat list \<Rightarrow> nat list \<Rightarrow> bool" where
  "dataflow_order g outs ord =
     (distinct ord \<and> list_all (\<lambda>out. out \<in> set ord) outs
      \<and> list_all (\<lambda>k. k < length g \<and> list_all (\<lambda>p. precedes ord p k) (g ! k)) ord)"

definition well_listed :: "layer \<Rightarrow> bool" where
  "well_listed model =
     (case layer_kind model of
        Functional ns ins outs ord \<Rightarrow> dataflow_order (map snd ns) outs ord
      | _ \<Rightarrow> False)"

text \<open>One such listing: the layer objects in the order of their creation.\<close>

definition creation_order :: layer_listing where
  "creation_order g outs = [0..<length g]"

text \<open>
  A graph segment whose first layer object has position \<open>n\<close> and whose layers are each
  called on the output of layers created before them, other than the input layer.
\<close>

definition rooted_from :: "nat \<Rightarrow> nat list list \<Rightarrow> bool" where
  "rooted_from n xs = (\<forall>i<length xs. xs ! i \<noteq> [] \<and> (\<forall>p\<in>set (xs ! i). 1 \<le> p \<and> p < n + i))"

section \<open>The experiment runner (\<^verbatim>\<open>run_self_har.py\<close>)\<close>

subsection \<open>What a run does to the outside world\<close>

text \<open>
  The trace records the printed error and default notices, every call of the dataset
  preparation for the unlabelled data, every assignment to an entry of the dictionary
  \<^verbatim>\<open>prepared_datasets\<close>, every training call (with the model and the learning-rate
  schedule passed to it), every prediction and every file written. Progress messages
  and printed results are not recorded.
\<close>

datatype action =
    Printed string
  | Info string jvalue
  | PrepareUnlabelled
  | DatasetWrite string
  | TrainModel nat layer "int \<Rightarrow> py_error + jvalue"
  | Predict nat layer
  | LabelCsv nat
  | WriteConfigs nat "config list"
  | WriteSummary "config list"

subsection \<open>Default values of configuration fields\<close>

text \<open>
  \<^verbatim>\<open>get_config_default_value_if_none(experiment_config, entry, set_value=True)\<close>.
  The first argument stands for \<^verbatim>\<open>datetime.datetime.now().strftime("%Y%m%d-%H%M%S")\<close>.
  The chain of \<^verbatim>\<open>elif\<close> has no final \<^verbatim>\<open>else\<close>: for any other entry the local variable
  \<^verbatim>\<open>default_value\<close> is unbound and its first use raises \<^verbatim>\<open>UnboundLocalError\<close>.
\<close>

definition default_value_of :: "string \<Rightarrow> string \<Rightarrow> jvalue option" where
  "default_value_of now entry =
     (if entry = ''type'' then Some (JStr ''none'')
      else if entry = ''tag'' then Some (JStr now)
      else if entry = ''previous_config_offset'' then Some (JInt 0)
      else if entry = ''initial_learning_rate'' then Some (JFloat 0.0003)
      else if entry = ''epochs'' then Some (JInt 30)
      else if entry = ''batch_size'' then Some (JInt 300)
      else if entry = ''optimizer'' then Some (JStr ''adam'')
      else if entry = ''self_training_samples_per_class'' then Some (JInt 10000)
      else if entry = ''self_training_minimum_confidence'' then Some (JFloat 0.0)
      else if entry = ''self_training_plurality_only'' then Some (JBool True)
      else if entry = ''trained_model_path'' then Some (JStr '''')
      else if entry = ''trained_model_type'' then Some (JStr ''unknown'')
      else if entry = ''eval_results'' then Some (JDict [])
      else if entry = ''eval_har'' then Some (JBool False)
      else None)"

text \<open>The result is the value returned, the configuration afterwards and what was printed.\<close>

definition get_config_default_value_if_none ::
  "string \<Rightarrow> config \<Rightarrow> string \<Rightarrow> bool \<Rightarrow> py_error + (jvalue \<times> config \<times> action list)" where
  "get_config_default_value_if_none now experiment_config entry set_value =
     (case map_of experiment_config entry of
        Some v \<Rightarrow> Inr (v, experiment_config, [])
      | None \<Rightarrow>
          (case default_value_of now entry of
             None \<Rightarrow> Inl UnboundLocalError
           | Some default_value \<Rightarrow>
               if set_value
               then Inr (default_value, AList.update entry default_value experiment_config,
                         [Info entry default_value])
               else Inr (default_value, experiment_config, [])))"

text \<open>The table of defaults as the specification lists it.\<close>

definition documented_defaults :: "string \<Rightarrow> (string \<times> jvalue) list" where
  "documented_defaults now =
     [(''type'', JStr ''none''),
      (''tag'', JStr now),
      (''previous_config_offset'', JInt 0),
      (''initial_learning_rate'', JFloat 0.0003),
      (''epochs'', JInt 30),
      (''batch_size'', JInt 300),
      (''optimizer'', JStr ''adam''),
      (''self_training_samples_per_class'', JInt 10000),
      (''self_training_minimum_confidence'', JFloat 0.0),
      (''self_training_plurality_only'', JBool True),
      (''trained_model_path'', JStr ''''),
      (''trained_model_type'', JStr ''unknown''),
      (''eval_results'', JDict []),
      (''eval_har'', JBool False)]"

text \<open>
  The value of a field, or \<open>d\<close> when the field is absent; the configuration with \<open>d\<close>
  written into an absent field; and the notice printed when that happens.
\<close>

definition field_or :: "config \<Rightarrow> string \<Rightarrow> jvalue \<Rightarrow> jvalue" where
  "field_or cfg entry d = (case map_of cfg entry of Some v \<Rightarrow> v | None \<Rightarrow> d)"

definition with_default :: "string \<Rightarrow> jvalue \<Rightarrow> config \<Rightarrow> config" where
  "with_default entry d cfg = (if map_of cfg entry = None then AList.update entry d cfg else cfg)"

definition default_notice :: "string \<Rightarrow> jvalue \<Rightarrow> config \<Rightarrow> action list" where
  "default_notice entry d cfg = (if map_of cfg entry = None then [Info entry d] else [])"

subsection \<open>Environment and state\<close>

text \<open>
  The environment holds the command-line arguments and the services that are external to
  the orchestration: the clock, the string conversion of a tag, the listing of layers by
  Keras, the training service (the file name it returns for the training call of
  experiment \<open>i\<close> in fold \<open>j\<close>), the evaluation of the predictions on the labelled test split
  and on the unlabelled data, the class indices of the test split and of the predictions,
  and the numpy and scikit-learn operations on result values. The external services are
  taken to return.
\<close>

record env =
  clock :: string
  verbose :: int
  percentage :: real
  file_tag :: string
  py_str :: "jvalue \<Rightarrow> string"
  keras_layers :: layer_listing
  input_shape :: "nat list"
  output_shape :: nat
  max_unlabelled_windows :: "int option"
  composite_train_model :: "nat \<Rightarrow> nat \<Rightarrow> string"
  evaluate_labelled :: "nat \<Rightarrow> nat \<Rightarrow> results"
  evaluate_unlabelled :: "nat \<Rightarrow> nat \<Rightarrow> results"
  test_labels :: "nat \<Rightarrow> int list"
  predicted_labels :: "nat \<Rightarrow> nat \<Rightarrow> int list"
  np_add :: "mvalue \<Rightarrow> mvalue \<Rightarrow> py_error + mvalue"
  np_divide :: "mvalue \<Rightarrow> nat \<Rightarrow> mvalue"
  confusion_matrix :: "int list \<Rightarrow> int list \<Rightarrow> mvalue"

datatype optimizer = Adam jvalue | SGD jvalue

text \<open>
  The variables of the script that the experiment loop reads and writes. All of them are
  module-level variables: \<open>optimizer\<close> and \<open>model\<close> may be unbound (\<open>None\<close>), and they keep
  their value from one experiment, and one fold, to the next. \<open>prepared_datasets\<close> is
  the list of the keys of that dictionary (its values are arrays of the external
  services); \<open>saved_models\<close> are the model files on disk.
\<close>

record run_state =
  experiment_configs :: "config list"
  prepared_datasets :: "string list"
  saved_models :: "(string \<times> layer) list"
  optimizer :: "optimizer option"
  model :: "layer option"
  ev :: "results option list"
  conv :: "mvalue list"
  y_true :: "int list list"
  y_pred :: "int list list"
  trace :: "action list"

text \<open>
  A piece of the script is a function from the state to a result and the state
  afterwards. It ends normally, with an exception, or with the \<^verbatim>\<open>break\<close> or \<^verbatim>\<open>continue\<close>
  of the experiment loop.
\<close>

datatype signal = Raised py_error | LoopBreak | LoopContinue

type_synonym 'a prog = "run_state \<Rightarrow> (signal + 'a) \<times> run_state"

definition ret :: "'a \<Rightarrow> 'a prog" where
  "ret x = (\<lambda>st. (Inr x, st))"

definition then_do :: "'a prog \<Rightarrow> ('a \<Rightarrow> 'b prog) \<Rightarrow> 'b prog" where
  "then_do m f = (\<lambda>st. case m st of (Inl s, st') \<Rightarrow> (Inl s, st') | (Inr x, st') \<Rightarrow> f x st')"

definition stop :: "signal \<Rightarrow> 'a prog" where
  "stop s = (\<lambda>st. (Inl s, st))"

definition lift :: "py_error + 'a \<Rightarrow> 'a prog" where
  "lift r = (case r of Inl e \<Rightarrow> stop (Raised e) | Inr x \<Rightarrow> ret x)"

definition reading :: "(run_state \<Rightarrow> 'a) \<Rightarrow> 'a prog" where
  "reading f = (\<lambda>st. (Inr (f st), st))"

definition modify :: "(run_state \<Rightarrow> run_state) \<Rightarrow> unit prog" where
  "modify f = (\<lambda>st. (Inr (), f st))"

definition emit :: "action list \<Rightarrow> unit prog" where
  "emit as = modify (\<lambda>st. st\<lparr>trace := trace st @ as\<rparr>)"

definition when_do :: "bool \<Rightarrow> unit prog \<Rightarrow> unit prog" where
  "when_do b m = (if b then m else ret ())"

text \<open>
  \<^verbatim>\<open>get_config_default_value_if_none\<close> applied to the configuration at position \<open>p\<close> of
  \<^verbatim>\<open>experiment_configs\<close>: the configuration is a shared dictionary object, so the default
  written back is seen through the list.
\<close>

definition config_value :: "env \<Rightarrow> nat \<Rightarrow> string \<Rightarrow> bool \<Rightarrow> jvalue prog" where
  "config_value e p entry set_value =
     then_do (reading experiment_configs) (\<lambda>cfgs.
     then_do (lift (get_config_default_value_if_none (clock e) (cfgs ! p) entry set_value))
       (\<lambda>(v, cfg', out).
     then_do (modify (\<lambda>st. st\<lparr>experiment_configs := (experiment_configs st)[p := cfg']\<rparr>)) (\<lambda>_.
     then_do (emit out) (\<lambda>_.
     ret v))))"

definition config_set :: "nat \<Rightarrow> string \<Rightarrow> jvalue \<Rightarrow> unit prog" where
  "config_set p entry v =
     modify (\<lambda>st. st\<lparr>experiment_configs :=
       (experiment_configs st)[p := AList.update entry v (experiment_configs st ! p)]\<rparr>)"

definition config_get :: "nat \<Rightarrow> string \<Rightarrow> jvalue prog" where
  "config_get p entry =
     then_do (reading experiment_configs) (\<lambda>cfgs. lift (py_getitem (cfgs ! p) entry))"

subsection \<open>Learning-rate schedules\<close>

text \<open>
  The three closures \<^verbatim>\<open>training_rate_schedule(epoch)\<close> of the script: the one of the
  \<^verbatim>\<open>transform_train\<close> branch, the one of the three \<^verbatim>\<open>har_*\<close> branches, and the one of the
  \<^verbatim>\<open>self_training\<close>/\<^verbatim>\<open>self_har\<close> branch. \<^verbatim>\<open>0.5 ** n\<close> is \<open>(1/2) powi n\<close> and \<^verbatim>\<open>//\<close> is
  \<open>div\<close> on integers; the products are taken in the reals.
\<close>

definition training_rate_schedule_transform :: "jvalue \<Rightarrow> int \<Rightarrow> py_error + jvalue" where
  "training_rate_schedule_transform initial_learning_rate epoch =
     (case py_number initial_learning_rate of
        None \<Rightarrow> Inl TypeError
      | Some r \<Rightarrow> Inr (JFloat (r * ((1 / 2) powi (epoch div 15)))))"

definition training_rate_schedule_har :: "jvalue \<Rightarrow> int \<Rightarrow> py_error + jvalue" where
  "training_rate_schedule_har initial_learning_rate epoch = Inr initial_learning_rate"

definition training_rate_schedule_self :: "int \<Rightarrow> py_error + jvalue" where
  "training_rate_schedule_self epoch = Inr (JFloat (0.0003 * ((1 / 2) powi (epoch div 15))))"

subsection \<open>Pieces of one experiment\<close>

definition transform_funcs_names :: "string list" where
  "transform_funcs_names =
     [''noised'', ''scaled'', ''rotated'', ''negated'', ''time_flipped'', ''permuted'',
      ''time_warped'', ''channel_shuffled'']"

text \<open>Lines 350 to 353: the previous configuration, as its position in the list.\<close>

definition resolve_previous_config :: "env \<Rightarrow> nat \<Rightarrow> nat option prog" where
  "resolve_previous_config e i =
     then_do (config_value e i ''previous_config_offset'' True) (\<lambda>offset.
       if py_eq_zero offset then ret None
       else
         then_do (config_get i ''previous_config_offset'') (\<lambda>offset'.
         then_do (lift (py_int_minus (int i) offset')) (\<lambda>k.
         then_do (reading experiment_configs) (\<lambda>cfgs.
         then_do (lift (py_index_position (length cfgs) k)) (\<lambda>p.
         ret (Some p))))))"

text \<open>
  The test \<^verbatim>\<open>previous_config is None or get_config_default_value_if_none(previous_config,
  'trained_model_path', set_value=False) == ''\<close>: the result is \<open>None\<close> when the test
  holds, and the position of the previous configuration otherwise.
\<close>

definition usable_previous :: "env \<Rightarrow> nat option \<Rightarrow> nat option prog" where
  "usable_previous e previous_config =
     (case previous_config of
        None \<Rightarrow> ret None
      | Some p \<Rightarrow>
          then_do (config_value e p ''trained_model_path'' False) (\<lambda>path.
          ret (if py_eq_str path '''' then None else Some p)))"

definition load_model :: "jvalue \<Rightarrow> layer prog" where
  "load_model path =
     then_do (reading saved_models) (\<lambda>files.
     lift (case path of
             JStr p \<Rightarrow> (case map_of files p of None \<Rightarrow> Inl OSError | Some m \<Rightarrow> Inr m)
           | _ \<Rightarrow> Inl TypeError))"

definition load_previous_model :: "nat \<Rightarrow> layer prog" where
  "load_previous_model p = then_do (config_get p ''trained_model_path'') load_model"

definition get_optimizer :: "optimizer prog" where
  "get_optimizer =
     then_do (reading optimizer) (\<lambda>opt.
     case opt of None \<Rightarrow> stop (Raised NameError) | Some x \<Rightarrow> ret x)"

definition insert_key :: "string \<Rightarrow> string list \<Rightarrow> string list" where
  "insert_key k ks = (if k \<in> set ks then ks else ks @ [k])"

definition dataset_write :: "string \<Rightarrow> unit prog" where
  "dataset_write k =
     then_do (modify (\<lambda>st. st\<lparr>prepared_datasets := insert_key k (prepared_datasets st)\<rparr>)) (\<lambda>_.
     emit [DatasetWrite k])"

text \<open>
  \<^verbatim>\<open>load_unlabelled_dataset\<close> assigns the entry \<^verbatim>\<open>'unlabelled'\<close> of the dictionary it is given
  (lines 168 and 170), and returns a new dictionary with the two further entries. The
  result is the list of keys of the dictionary returned.
\<close>

definition load_unlabelled_dataset :: "env \<Rightarrow> string list prog" where
  "load_unlabelled_dataset e =
     then_do (reading prepared_datasets) (\<lambda>pd.
       if ''labelled'' \<notin> set pd then stop (Raised KeyError)
       else
         then_do (emit [PrepareUnlabelled]) (\<lambda>_.
         then_do (dataset_write ''unlabelled'') (\<lambda>_.
         then_do (when_do (max_unlabelled_windows e \<noteq> None) (dataset_write ''unlabelled'')) (\<lambda>_.
         then_do (reading prepared_datasets) (\<lambda>pd'.
         ret (insert_key ''unlabelled_combined'' (insert_key ''labelled_x_repeat'' pd')))))))"

text \<open>
  Lines 392 to 393 and 525 to 526: the guarded call, whose result is bound to
  \<^verbatim>\<open>prepared_datasets\<close>.
\<close>

definition ensure_unlabelled :: "env \<Rightarrow> unit prog" where
  "ensure_unlabelled e =
     then_do (reading prepared_datasets) (\<lambda>pd.
       if ''unlabelled'' \<in> set pd then ret ()
       else
         then_do (load_unlabelled_dataset e) (\<lambda>pd'.
         then_do (modify (\<lambda>st. st\<lparr>prepared_datasets := pd'\<rparr>)) (\<lambda>_.
         emit [DatasetWrite ''labelled_x_repeat'', DatasetWrite ''unlabelled_combined''])))"

definition require_dataset :: "string \<Rightarrow> unit prog" where
  "require_dataset k =
     then_do (reading prepared_datasets) (\<lambda>pd.
     if k \<in> set pd then ret () else stop (Raised KeyError))"

text \<open>Lines 381 to 388.\<close>

definition training_setup :: "env \<Rightarrow> nat \<Rightarrow> jvalue prog" where
  "training_setup e i =
     then_do (config_value e i ''initial_learning_rate'' True) (\<lambda>initial_learning_rate.
     then_do (config_value e i ''epochs'' True) (\<lambda>epochs.
     then_do (config_value e i ''batch_size'' True) (\<lambda>batch_size.
     then_do (config_value e i ''optimizer'' True) (\<lambda>optimizer_type.
     then_do
       (if py_eq_str optimizer_type ''adam''
        then modify (\<lambda>st. st\<lparr>optimizer := Some (Adam initial_learning_rate)\<rparr>)
        else if py_eq_str optimizer_type ''sgd''
        then modify (\<lambda>st. st\<lparr>optimizer := Some (SGD initial_learning_rate)\<rparr>)
        else ret ()) (\<lambda>_.
     ret initial_learning_rate)))))"

text \<open>
  The call of \<^verbatim>\<open>composite_train_model\<close> and the two assignments that follow it. The model
  file written by the training holds the model that was passed.
\<close>

definition train ::
  "env \<Rightarrow> nat \<Rightarrow> nat \<Rightarrow> layer \<Rightarrow> (int \<Rightarrow> py_error + jvalue) \<Rightarrow> string \<Rightarrow> unit prog" where
  "train e j i full_model schedule model_type =
     then_do (emit [TrainModel i full_model schedule]) (\<lambda>_.
     then_do (modify (\<lambda>st. st\<lparr>saved_models :=
                AList.update (composite_train_model e j i) full_model (saved_models st)\<rparr>)) (\<lambda>_.
     then_do (config_set i ''trained_model_path'' (JStr (composite_train_model e j i))) (\<lambda>_.
     config_set i ''trained_model_type'' (JStr model_type))))"

text \<open>Lines 359 to 378.\<close>

definition eval_har_branch :: "env \<Rightarrow> nat \<Rightarrow> nat \<Rightarrow> nat option \<Rightarrow> string \<Rightarrow> unit prog" where
  "eval_har_branch e j i previous_config tag =
     then_do (usable_previous e previous_config) (\<lambda>usable.
       case usable of
         None \<Rightarrow>
           then_do (emit [Printed ''ERROR Evaluation model does not exist'']) (\<lambda>_.
           stop LoopContinue)
       | Some p \<Rightarrow>
           then_do (config_value e p ''trained_model_type'' True) (\<lambda>model_type.
           then_do
             (if py_eq_str model_type ''har_model''
              then then_do (load_previous_model p) (\<lambda>previous_model.
                   modify (\<lambda>st. st\<lparr>model := Some previous_model\<rparr>))
              else if py_eq_str model_type ''transform_with_har_model''
              then then_do (load_previous_model p) (\<lambda>previous_model.
                   then_do get_optimizer (\<lambda>_.
                   then_do (lift (extract_har_model (keras_layers e) previous_model (- 1) tag))
                     (\<lambda>har_model.
                   modify (\<lambda>st. st\<lparr>model := Some har_model\<rparr>))))
              else ret ()) (\<lambda>_.
           then_do (reading model) (\<lambda>bound.
             case bound of
               None \<Rightarrow> stop (Raised NameError)
             | Some m \<Rightarrow>
                 then_do (emit [Predict i m]) (\<lambda>_.
                 then_do (config_set i ''eval_results'' (JDict (evaluate_labelled e j i))) (\<lambda>_.
                 stop LoopContinue))))))"

text \<open>Lines 391 to 440.\<close>

definition transform_train_branch ::
  "env \<Rightarrow> nat \<Rightarrow> nat \<Rightarrow> nat option \<Rightarrow> jvalue \<Rightarrow> unit prog" where
  "transform_train_branch e j i previous_config initial_learning_rate =
     then_do (ensure_unlabelled e) (\<lambda>_.
     then_do (usable_previous e previous_config) (\<lambda>usable.
     then_do
       (case usable of
          None \<Rightarrow> ret (create_1d_conv_core_model (keras_layers e) (input_shape e) ''base_model'')
        | Some p \<Rightarrow>
            then_do (load_previous_model p) (\<lambda>previous_model.
            lift (extract_core_model previous_model))) (\<lambda>core_model.
     then_do get_optimizer (\<lambda>_.
     then_do (lift (attach_multitask_transform_head (keras_layers e) core_model
                      transform_funcs_names False None 1024 ''multitask_transform''))
       (\<lambda>transform_model.
     then_do (require_dataset ''unlabelled_combined'') (\<lambda>_.
     train e j i transform_model (training_rate_schedule_transform initial_learning_rate)
       ''transform_model''))))))"

text \<open>Lines 444 to 466: the model the training starts from, and whether it is a core model.\<close>

definition har_source_model ::
  "env \<Rightarrow> jvalue \<Rightarrow> nat option \<Rightarrow> string \<Rightarrow> (bool \<times> layer) prog" where
  "har_source_model e experiment_type previous_config tag =
     then_do (usable_previous e previous_config) (\<lambda>usable.
       case usable of
         None \<Rightarrow>
           ret (True, create_1d_conv_core_model (keras_layers e) (input_shape e) ''base_model'')
       | Some p \<Rightarrow>
           then_do (load_previous_model p) (\<lambda>previous_model.
             if py_eq_str experiment_type ''har_linear_train''
             then then_do (lift (extract_core_model previous_model)) (\<lambda>core_model.
                  ret (True, core_model))
             else
               then_do (config_value e p ''trained_model_type'' True) (\<lambda>model_type.
                 if py_eq_str model_type ''har_model'' then ret (False, previous_model)
                 else
                   then_do (config_get p ''trained_model_type'') (\<lambda>model_type'.
                     if py_eq_str model_type' ''transform_with_har_model''
                     then then_do get_optimizer (\<lambda>_.
                          then_do (lift (extract_har_model (keras_layers e) previous_model (- 1) tag))
                            (\<lambda>har_model.
                          ret (False, har_model)))
                     else then_do (lift (extract_core_model previous_model)) (\<lambda>core_model.
                          ret (True, core_model))))))"

text \<open>
  \<^verbatim>\<open>set_freeze_layers(extract_core_model(har_model), num_freeze_layer_index=n)\<close>: the core
  model is an object inside \<^verbatim>\<open>har_model\<close>, so the model is returned with that object
  updated.
\<close>

definition freeze_core_of :: "layer \<Rightarrow> int option \<Rightarrow> py_error + layer" where
  "freeze_core_of har_model num_freeze_layer_index =
     bind_err (extract_core_model har_model) (\<lambda>core_model.
     bind_err (set_freeze_layers core_model num_freeze_layer_index) (\<lambda>frozen.
       case layer_kind har_model of
         Functional ns ins outs ord \<Rightarrow>
           bind_err (py_index ord 1) (\<lambda>k.
             Inr (Layer (Functional (ns[k := (frozen, snd (ns ! k))]) ins outs ord)
                    (layer_name har_model) (trainable har_model)))
       | _ \<Rightarrow> Inl AttributeError))"

text \<open>
  Lines 468 to 483. The branch is entered only with one of the three \<^verbatim>\<open>har_*\<close> types;
  with any other type and a core model, \<^verbatim>\<open>har_model\<close> would be read unbound.
\<close>

definition freeze_and_attach :: "env \<Rightarrow> jvalue \<Rightarrow> bool \<Rightarrow> layer \<Rightarrow> layer prog" where
  "freeze_and_attach e experiment_type is_core_model m =
     (if is_core_model then
        (if py_eq_str experiment_type ''har_linear_train'' then
           then_do (lift (set_freeze_layers m None)) (\<lambda>core_model.
           then_do get_optimizer (\<lambda>_.
           lift (attach_linear_classification_head (keras_layers e) core_model (output_shape e)
                   ''Linear'')))
         else if py_eq_str experiment_type ''har_full_train'' then
           then_do (lift (set_freeze_layers m (Some 0))) (\<lambda>core_model.
           then_do get_optimizer (\<lambda>_.
           lift (attach_full_har_classification_head (keras_layers e) core_model (output_shape e)
                   1024 ''HAR'')))
         else if py_eq_str experiment_type ''har_full_fine_tune'' then
           then_do (lift (set_freeze_layers m (Some 5))) (\<lambda>core_model.
           then_do get_optimizer (\<lambda>_.
           lift (attach_full_har_classification_head (keras_layers e) core_model (output_shape e)
                   1024 ''HAR'')))
         else stop (Raised NameError))
      else
        (if py_eq_str experiment_type ''har_full_train'' then lift (freeze_core_of m (Some 0))
         else if py_eq_str experiment_type ''har_full_fine_tune'' then lift (freeze_core_of m (Some 5))
         else ret m))"

text \<open>Lines 442 to 520.\<close>

definition har_train_branch ::
  "env \<Rightarrow> nat \<Rightarrow> nat \<Rightarrow> jvalue \<Rightarrow> nat option \<Rightarrow> string \<Rightarrow> jvalue \<Rightarrow> unit prog" where
  "har_train_branch e j i experiment_type previous_config tag initial_learning_rate =
     then_do (har_source_model e experiment_type previous_config tag) (\<lambda>(is_core_model, m).
     then_do (freeze_and_attach e experiment_type is_core_model m) (\<lambda>har_model.
     train e j i har_model (training_rate_schedule_har initial_learning_rate) ''har_model''))"

text \<open>Lines 524 to 607.\<close>

definition self_training_branch ::
  "env \<Rightarrow> nat \<Rightarrow> nat \<Rightarrow> jvalue \<Rightarrow> nat option \<Rightarrow> unit prog" where
  "self_training_branch e j i experiment_type previous_config =
     then_do (ensure_unlabelled e) (\<lambda>_.
     then_do (usable_previous e previous_config) (\<lambda>usable.
       case usable of
         None \<Rightarrow>
           then_do (emit [Printed ''ERROR No previous model for self-training'']) (\<lambda>_.
           stop LoopBreak)
       | Some p \<Rightarrow>
           then_do (load_previous_model p) (\<lambda>teacher_model.
           then_do (require_dataset ''unlabelled_combined'') (\<lambda>_.
           then_do (emit [Predict i teacher_model]) (\<lambda>_.
           then_do (config_value e i ''self_training_samples_per_class'' True) (\<lambda>_.
           then_do (config_value e i ''self_training_minimum_confidence'' True) (\<lambda>_.
           then_do (config_value e i ''self_training_plurality_only'' True) (\<lambda>_.
           then_do (ret (create_1d_conv_core_model (keras_layers e) (input_shape e) ''base_model''))
             (\<lambda>core_model.
           then_do get_optimizer (\<lambda>_.
           then_do
             (if py_eq_str experiment_type ''self_training''
              then lift (attach_full_har_classification_head (keras_layers e) core_model
                           (output_shape e) 1024 ''StudentPreTrain'')
              else lift (attach_multitask_transform_head (keras_layers e) core_model
                           transform_funcs_names True (Some (output_shape e)) 1024
                           ''StudentPreTrain'')) (\<lambda>student_model.
           train e j i student_model training_rate_schedule_self
             (if py_eq_str experiment_type ''self_training'' then ''har_model''
              else ''transform_with_har_model''))))))))))))"

text \<open>
  Lines 684 to 696 and 728 to 739, for \<open>i = 2\<close> and \<open>i = 3\<close>: the unlabelled data are
  loaded again, and the result is bound to \<^verbatim>\<open>data\<close>, not to \<^verbatim>\<open>prepared_datasets\<close>.
\<close>

definition evaluate_on_unlabelled :: "env \<Rightarrow> nat \<Rightarrow> nat \<Rightarrow> layer \<Rightarrow> unit prog" where
  "evaluate_on_unlabelled e j i best_har_model =
     then_do (load_unlabelled_dataset e) (\<lambda>data.
     then_do (emit [Predict i best_har_model]) (\<lambda>_.
     then_do (modify (\<lambda>st. st\<lparr>ev := (ev st)[i := Some (evaluate_unlabelled e j i)]\<rparr>)) (\<lambda>_.
     then_do (lift (py_getitem (evaluate_unlabelled e j i) ''Confusion Matrix'')) (\<lambda>cm.
     then_do (reading conv) (\<lambda>c.
     then_do (lift (np_add e (c ! i) cm)) (\<lambda>s.
     then_do (modify (\<lambda>st. st\<lparr>conv := (conv st)[i := s]\<rparr>)) (\<lambda>_.
     modify (\<lambda>st. st\<lparr>y_true := (y_true st)[i - 2 := y_true st ! (i - 2) @ test_labels e j],
                      y_pred := (y_pred st)[i - 2 := y_pred st ! (i - 2) @ predicted_labels e j i]\<rparr>)
     )))))))"

text \<open>Lines 610 to 745.\<close>

definition eval_flag_branch :: "env \<Rightarrow> nat \<Rightarrow> nat \<Rightarrow> string \<Rightarrow> unit prog" where
  "eval_flag_branch e j i tag =
     then_do (config_value e i ''eval_har'' False) (\<lambda>flag.
       if \<not> py_truthy flag then ret ()
       else
         then_do (config_value e i ''trained_model_type'' True) (\<lambda>model_type.
         then_do
           (if py_eq_str model_type ''har_model''
            then then_do (config_get i ''trained_model_path'') load_model
            else if py_eq_str model_type ''transform_with_har_model''
            then then_do (then_do (config_get i ''trained_model_path'') load_model)
                   (\<lambda>previous_model.
                 then_do get_optimizer (\<lambda>_.
                 lift (extract_har_model (keras_layers e) previous_model (- 1) tag)))
            else stop LoopContinue) (\<lambda>best_har_model.
         then_do (emit [Predict i best_har_model]) (\<lambda>_.
         then_do (when_do (i = 3 \<and> percentage e = 0.5) (emit [LabelCsv i])) (\<lambda>_.
         then_do (when_do (i = 2) (evaluate_on_unlabelled e j i best_har_model)) (\<lambda>_.
         then_do (when_do (i = 3) (evaluate_on_unlabelled e j i best_har_model)) (\<lambda>_.
         config_set i ''eval_results'' (JDict (evaluate_labelled e j i)))))))))"

subsection \<open>One experiment and the experiment loop\<close>

text \<open>The body of the loop over \<^verbatim>\<open>enumerate(experiment_configs)\<close>, lines 335 to 747.\<close>

definition run_branches :: "env \<Rightarrow> nat \<Rightarrow> nat \<Rightarrow> jvalue \<Rightarrow> nat option \<Rightarrow> unit prog" where
  "run_branches e j i experiment_type previous_config =
     then_do (config_value e i ''tag'' True) (\<lambda>tag_value.
     then_do (ret (clock e @ ''_'' @ file_tag e @ ''_'' @ py_str e tag_value)) (\<lambda>tag.
       if py_eq_str experiment_type ''eval_har''
       then eval_har_branch e j i previous_config tag
       else
         then_do (training_setup e i) (\<lambda>initial_learning_rate.
         then_do (when_do (py_eq_str experiment_type ''transform_train'')
                    (transform_train_branch e j i previous_config initial_learning_rate)) (\<lambda>_.
         then_do (when_do (py_eq_str experiment_type ''har_full_train''
                           \<or> py_eq_str experiment_type ''har_full_fine_tune''
                           \<or> py_eq_str experiment_type ''har_linear_train'')
                    (har_train_branch e j i experiment_type previous_config tag
                       initial_learning_rate)) (\<lambda>_.
         then_do (when_do (py_eq_str experiment_type ''self_training''
                           \<or> py_eq_str experiment_type ''self_har'')
                    (self_training_branch e j i experiment_type previous_config)) (\<lambda>_.
         eval_flag_branch e j i tag))))))"

definition run_experiment :: "env \<Rightarrow> nat \<Rightarrow> nat \<Rightarrow> unit prog" where
  "run_experiment e j i =
     then_do (config_value e i ''type'' True) (\<lambda>experiment_type.
       if py_eq_str experiment_type ''none'' then stop LoopContinue
       else
         then_do (resolve_previous_config e i) (\<lambda>previous_config.
         run_branches e j i experiment_type previous_config))"

text \<open>
  The loop over the positions still to run: \<^verbatim>\<open>break\<close> ends the loop, \<^verbatim>\<open>continue\<close> and the
  end of the body go on with the next position, an exception ends the run.
\<close>

fun run_experiments :: "env \<Rightarrow> nat \<Rightarrow> nat list \<Rightarrow> unit prog" where
  "run_experiments e j [] st = (Inr (), st)"
| "run_experiments e j (i # rest) st =
     (case run_experiment e j i st of
        (Inl (Raised x), st') \<Rightarrow> (Inl (Raised x), st')
      | (Inl LoopBreak, st') \<Rightarrow> (Inr (), st')
      | (Inl LoopContinue, st') \<Rightarrow> run_experiments e j rest st'
      | (Inr u, st') \<Rightarrow> run_experiments e j rest st')"

subsection \<open>One fold and the aggregation over the folds\<close>

text \<open>
  The accumulators of one setting of the labelled-data percentage (lines 270 to 279), with
  whether the variable \<^verbatim>\<open>path\<close> is bound, and the list of configurations written to the
  results summary file of each fold.
\<close>

record totals =
  performance_labelled_dataset :: "(string \<times> results) list"
  performance_unlabelled_dataset :: "(string \<times> results) list"
  performance_unlabelled_dataset_dictionary :: "(nat \<times> results option list) list"
  path_bound :: bool
  summaries :: "config list list"

definition zero_performance :: results where
  "zero_performance =
     [(''Confusion Matrix'', MNum 0), (''F1 Macro'', MNum 0), (''F1 Micro'', MNum 0),
      (''F1 Weighted'', MNum 0), (''Precision'', MNum 0), (''Recall'', MNum 0),
      (''Kappa'', MNum 0)]"

definition initial_totals :: totals where
  "initial_totals =
     \<lparr>performance_labelled_dataset =
        [(''Experiment 2'', zero_performance), (''Experiment 3'', zero_performance)],
      performance_unlabelled_dataset =
        [(''Experiment 2'', zero_performance), (''Experiment 3'', zero_performance)],
      performance_unlabelled_dataset_dictionary = [],
      path_bound = False,
      summaries = []\<rparr>"

text \<open>
  \<^verbatim>\<open>a + b\<close> and \<^verbatim>\<open>a / len(users)\<close> on result values: on two numbers they are the sum and
  the quotient, and dividing a number by zero raises; on arrays they are the operations
  of numpy.
\<close>

definition py_add :: "env \<Rightarrow> mvalue \<Rightarrow> mvalue \<Rightarrow> py_error + mvalue" where
  "py_add e a b =
     (case (a, b) of
        (MNum x, MNum y) \<Rightarrow> Inr (MNum (x + y))
      | _ \<Rightarrow> np_add e a b)"

definition py_divide :: "env \<Rightarrow> mvalue \<Rightarrow> nat \<Rightarrow> py_error + mvalue" where
  "py_divide e a n =
     (case a of
        MNum x \<Rightarrow> if n = 0 then Inl ZeroDivisionError else Inr (MNum (x / real n))
      | MMat m \<Rightarrow> Inr (np_divide e a n))"

text \<open>\<^verbatim>\<open>f"Experiment {i}"\<close>, used for \<open>i = 2\<close> and \<open>i = 3\<close>.\<close>

definition experiment_name :: "nat \<Rightarrow> string" where
  "experiment_name i = (if i = 2 then ''Experiment 2'' else ''Experiment 3'')"

text \<open>A loop whose body may raise.\<close>

fun fold_err :: "('a \<Rightarrow> 'b \<Rightarrow> py_error + 'b) \<Rightarrow> 'a list \<Rightarrow> 'b \<Rightarrow> py_error + 'b" where
  "fold_err f [] s = Inr s"
| "fold_err f (x # xs) s = (case f x s of Inl e \<Rightarrow> Inl e | Inr s' \<Rightarrow> fold_err f xs s')"

text \<open>\<^verbatim>\<open>perf[name][k] = f(perf[name][k])\<close> on a dictionary of result dictionaries.\<close>

definition performance_modify ::
  "string \<Rightarrow> string \<Rightarrow> (mvalue \<Rightarrow> py_error + mvalue) \<Rightarrow> (string \<times> results) list
     \<Rightarrow> py_error + (string \<times> results) list" where
  "performance_modify name k f perf =
     bind_err (py_getitem perf name) (\<lambda>d.
     bind_err (py_getitem d k) (\<lambda>old.
     bind_err (f old) (\<lambda>new.
     Inr (AList.update name (AList.update k new d) perf))))"

text \<open>\<^verbatim>\<open>config['eval_results'][k]\<close> and \<^verbatim>\<open>ev[i][k]\<close>.\<close>

definition config_result :: "config \<Rightarrow> string \<Rightarrow> py_error + mvalue" where
  "config_result config k =
     bind_err (py_getitem config ''eval_results'') (\<lambda>r.
     case r of JDict d \<Rightarrow> py_getitem d k | _ \<Rightarrow> Inl TypeError)"

definition ev_result :: "results option \<Rightarrow> string \<Rightarrow> py_error + mvalue" where
  "ev_result r k = (case r of None \<Rightarrow> Inl TypeError | Some d \<Rightarrow> py_getitem d k)"

text \<open>Lines 762 to 766: the body of the loop over the keys \<open>k\<close>.\<close>

definition accumulate_metric ::
  "env \<Rightarrow> config \<Rightarrow> results option \<Rightarrow> string \<Rightarrow> string \<Rightarrow> totals \<Rightarrow> py_error + totals" where
  "accumulate_metric e config ev_i name k tot =
     (if k = ''Confusion Matrix'' then Inr tot
      else
        bind_err (performance_modify name k
                    (\<lambda>old. bind_err (config_result config k) (py_add e old))
                    (performance_labelled_dataset tot)) (\<lambda>labelled.
        bind_err (performance_modify name k
                    (\<lambda>old. bind_err (ev_result ev_i k) (py_add e old))
                    (performance_unlabelled_dataset tot)) (\<lambda>unlabelled.
        Inr (tot\<lparr>performance_labelled_dataset := labelled,
                 performance_unlabelled_dataset := unlabelled\<rparr>))))"

text \<open>Lines 754 to 766: the body of the loop over \<^verbatim>\<open>enumerate(experiment_configs)\<close>.\<close>

definition summarise_config ::
  "env \<Rightarrow> nat \<Rightarrow> results option list \<Rightarrow> nat \<times> config \<Rightarrow> totals \<Rightarrow> py_error + totals" where
  "summarise_config e j evs = (\<lambda>(i, config) tot.
     let tot1 = tot\<lparr>performance_unlabelled_dataset_dictionary :=
                  AList.update j evs (performance_unlabelled_dataset_dictionary tot)\<rparr>
     in if i = 2 \<or> i = 3
        then bind_err (py_getitem (performance_labelled_dataset tot1) (experiment_name i)) (\<lambda>d.
             fold_err (accumulate_metric e config (evs ! i) (experiment_name i)) (map fst d) tot1)
        else Inr tot1)"

text \<open>
  Lines 280 to 782: one fold. The configurations are read again from the configuration
  file, and \<^verbatim>\<open>prepared_datasets\<close> starts with the labelled data only.
\<close>

definition run_fold ::
  "env \<Rightarrow> config list \<Rightarrow> nat \<Rightarrow> run_state \<times> totals \<Rightarrow> py_error + run_state \<times> totals" where
  "run_fold e config_file j = (\<lambda>(st, tot).
     case run_experiments e j [0..<length config_file]
            (st\<lparr>experiment_configs := config_file, prepared_datasets := [''labelled'']\<rparr>) of
       (Inl (Raised x), st') \<Rightarrow> Inl x
     | (_, st') \<Rightarrow>
         bind_err
           (if 0 < verbose e
            then bind_err (fold_err (summarise_config e j (ev st'))
                             (enumerate 0 (experiment_configs st')) tot)
                   (\<lambda>tot'. Inr (tot'\<lparr>path_bound := True\<rparr>))
            else Inr tot) (\<lambda>tot'.
         Inr (st'\<lparr>trace := trace st'
                      @ (if 0 < verbose e then [WriteConfigs j (experiment_configs st')] else [])
                      @ [WriteSummary (experiment_configs st')]\<rparr>,
              tot'\<lparr>summaries := summaries tot' @ [experiment_configs st']\<rparr>)))"

text \<open>Lines 784 to 791: the body of the loop over the keys \<open>k\<close>.\<close>

definition divide_metric :: "env \<Rightarrow> nat \<Rightarrow> string \<Rightarrow> totals \<Rightarrow> py_error + totals" where
  "divide_metric e n k tot =
     (if k = ''Confusion Matrix'' then Inr tot
      else
        bind_err (performance_modify ''Experiment 2'' k (\<lambda>v. py_divide e v n)
                    (performance_labelled_dataset tot)) (\<lambda>l2.
        bind_err (performance_modify ''Experiment 3'' k (\<lambda>v. py_divide e v n) l2) (\<lambda>l3.
        bind_err (performance_modify ''Experiment 2'' k (\<lambda>v. py_divide e v n)
                    (performance_unlabelled_dataset tot)) (\<lambda>u2.
        bind_err (performance_modify ''Experiment 3'' k (\<lambda>v. py_divide e v n) u2) (\<lambda>u3.
        Inr (tot\<lparr>performance_labelled_dataset := l3,
                 performance_unlabelled_dataset := u3\<rparr>))))))"

text \<open>
  Lines 784 to 798. The files are written into \<^verbatim>\<open>path\<close>, which is assigned only in the
  part of the fold that runs under \<^verbatim>\<open>verbose > 0\<close>.
\<close>

definition finalise :: "env \<Rightarrow> nat \<Rightarrow> run_state \<Rightarrow> totals \<Rightarrow> py_error + totals" where
  "finalise e n st tot =
     bind_err (py_getitem (performance_labelled_dataset tot) ''Experiment 2'') (\<lambda>d.
     bind_err (fold_err (divide_metric e n) (map fst d) tot) (\<lambda>tot1.
     bind_err (py_divide e (conv st ! 2) n) (\<lambda>c2.
     bind_err (py_divide e (conv st ! 3) n) (\<lambda>c3.
     bind_err (performance_modify ''Experiment 2'' ''Confusion Matrix'' (\<lambda>_. Inr c2)
                 (performance_unlabelled_dataset tot1)) (\<lambda>u2.
     bind_err (performance_modify ''Experiment 3'' ''Confusion Matrix'' (\<lambda>_. Inr c3) u2) (\<lambda>u3.
     bind_err (performance_modify ''Experiment 2'' ''Confusion Matrix''
                 (\<lambda>_. Inr (confusion_matrix e (y_true st ! 0) (y_pred st ! 0)))
                 (performance_labelled_dataset tot1)) (\<lambda>l2.
     bind_err (performance_modify ''Experiment 3'' ''Confusion Matrix''
                 (\<lambda>_. Inr (confusion_matrix e (y_true st ! 1) (y_pred st ! 1))) l2) (\<lambda>l3.
     if path_bound tot1
     then Inr (tot1\<lparr>performance_labelled_dataset := l3, performance_unlabelled_dataset := u3\<rparr>)
     else Inl NameError))))))))"

text \<open>
  Lines 270 to 809: one setting of the labelled-data percentage, with one fold for each
  of the \<open>n_users\<close> users. The argument state gives the variables that keep their value
  from before (the model files, \<^verbatim>\<open>optimizer\<close>, \<^verbatim>\<open>model\<close>).
\<close>

definition run_percentage ::
  "env \<Rightarrow> config list \<Rightarrow> nat \<Rightarrow> run_state \<Rightarrow> py_error + run_state \<times> totals" where
  "run_percentage e config_file n_users g =
     bind_err (fold_err (run_fold e config_file) [0..<n_users]
                 (g\<lparr>ev := [None, None, None, None],
                    conv := [MNum 0, MNum 0, MNum 0, MNum 0],
                    y_true := [[], []], y_pred := [[], []]\<rparr>,
                  initial_totals)) (\<lambda>(st, tot).
     bind_err (finalise e n_users st tot) (\<lambda>tot'.
     Inr (st, tot')))"

subsection \<open>What a piece of the script may do\<close>

text \<open>
  A relation between the state before and after a piece of the script: the trace is
  extended by actions that satisfy \<open>P\<close>, and the pooled label lists \<^verbatim>\<open>y_true\<close> and
  \<^verbatim>\<open>y_pred\<close> change according to \<open>Q\<close>. \<open>stepwise R m\<close> says that every run of \<open>m\<close> relates
  the state before to the state after by \<open>R\<close>, however the run ends.
\<close>

type_synonym pooled = "int list list \<times> int list list"

definition observes :: "(action \<Rightarrow> bool) \<Rightarrow> (pooled \<Rightarrow> pooled \<Rightarrow> bool) \<Rightarrow> run_state \<Rightarrow> run_state \<Rightarrow> bool" where
  "observes P Q st st' =
     ((\<exists>as. trace st' = trace st @ as \<and> list_all P as)
      \<and> Q (y_true st, y_pred st) (y_true st', y_pred st'))"

definition stepwise :: "(run_state \<Rightarrow> run_state \<Rightarrow> bool) \<Rightarrow> 'a prog \<Rightarrow> bool" where
  "stepwise R m = (\<forall>st. R st (snd (m st)))"

text \<open>
  The conditions on \<open>P\<close> and \<open>Q\<close> under which every piece of the script other than the
  training call is covered: \<open>P\<close> holds of every action other than a training call, \<open>Q\<close> is
  reflexive and transitive, and \<open>Q\<close> allows the two assignments of lines 695 to 696 and 738
  to 739 in fold \<open>j\<close>.
\<close>

definition admits :: "env \<Rightarrow> nat \<Rightarrow> (action \<Rightarrow> bool) \<Rightarrow> (pooled \<Rightarrow> pooled \<Rightarrow> bool) \<Rightarrow> bool" where
  "admits e j P Q =
     ((\<forall>s. P (Printed s)) \<and> (\<forall>k v. P (Info k v)) \<and> P PrepareUnlabelled
      \<and> (\<forall>k. P (DatasetWrite k)) \<and> (\<forall>i m. P (Predict i m)) \<and> (\<forall>i. P (LabelCsv i))
      \<and> (\<forall>y. Q y y) \<and> (\<forall>x y z. Q x y \<longrightarrow> Q y z \<longrightarrow> Q x z)
      \<and> (\<forall>yt yp i. i = 2 \<or> i = 3 \<longrightarrow>
            Q (yt, yp) (yt[i - 2 := yt ! (i - 2) @ test_labels e j],
                        yp[i - 2 := yp ! (i - 2) @ predicted_labels e j i])))"

text \<open>An action is a training call with the learning-rate schedule \<open>S\<close>, or no training call.\<close>

definition uses_schedule :: "(int \<Rightarrow> py_error + jvalue) \<Rightarrow> action \<Rightarrow> bool" where
  "uses_schedule S a = (case a of TrainModel i m s \<Rightarrow> s = S | _ \<Rightarrow> True)"

definition any_pooled :: "pooled \<Rightarrow> pooled \<Rightarrow> bool" where
  "any_pooled x y = True"

text \<open>
  An action is a training call of experiment \<open>i\<close> with the learning-rate schedule \<open>S\<close>;
  and every run of a piece of the script that ends normally has performed an action that
  satisfies \<open>A\<close>.
\<close>

definition trains_with :: "nat \<Rightarrow> (int \<Rightarrow> py_error + jvalue) \<Rightarrow> action \<Rightarrow> bool" where
  "trains_with i S a = (case a of TrainModel i' m s \<Rightarrow> i' = i \<and> s = S | _ \<Rightarrow> False)"

definition reaches :: "(action \<Rightarrow> bool) \<Rightarrow> 'a prog \<Rightarrow> bool" where
  "reaches A m =
     (\<forall>st x st'. m st = (Inr x, st') \<longrightarrow> (\<exists>as. trace st' = trace st @ as \<and> list_ex A as))"

section \<open>Example inputs\<close>

text \<open>
  A concrete environment, in which Keras lists the layers in the order of their creation,
  and the initial variables of the script. The sample pipeline is the one of the
  repository's \<^verbatim>\<open>self_har.json\<close>: train a teacher, pre-train a student by self-training with
  the multi-task heads, fine-tune it, and train a linear head on it.
\<close>

definition example_results :: "nat \<Rightarrow> nat \<Rightarrow> results" where
  "example_results j i =
     [(''Confusion Matrix'', MMat [[1, 0], [0, 1]]),
      (''F1 Macro'', MNum (of_nat (j + i))), (''F1 Micro'', MNum 1), (''F1 Weighted'', MNum 1),
      (''Precision'', MNum 1), (''Recall'', MNum 1), (''Kappa'', MNum 1)]"

definition example_env :: env where
  "example_env =
     \<lparr>clock = ''20211231-235959'', verbose = 1, percentage = 0.5, file_tag = ''Self_HAR'',
      py_str = (\<lambda>v. case v of JStr s \<Rightarrow> s | _ \<Rightarrow> ''value''),
      keras_layers = creation_order, input_shape = [52, 3], output_shape = 4,
      max_unlabelled_windows = Some 4000000,
      composite_train_model = (\<lambda>j i. ''model_'' @ replicate i (CHR ''I'')),
      evaluate_labelled = example_results,
      evaluate_unlabelled = example_results,
      test_labels = (\<lambda>j. [0, 1]),
      predicted_labels = (\<lambda>j i. [0, int i]),
      np_add = (\<lambda>a b. Inr b),
      np_divide = (\<lambda>a n. a),
      confusion_matrix = (\<lambda>t p. MMat [[of_nat (length t)]])\<rparr>"

definition example_state :: "config list \<Rightarrow> run_state" where
  "example_state cfgs =
     \<lparr>experiment_configs = cfgs, prepared_datasets = [''labelled''], saved_models = [],
      optimizer = None, model = None, ev = [None, None, None, None],
      conv = [MNum 0, MNum 0, MNum 0, MNum 0], y_true = [[], []], y_pred = [[], []],
      trace = []\<rparr>"

definition sample_pipeline :: "config list" where
  "sample_pipeline =
     [[(''type'', JStr ''har_full_train''), (''tag'', JStr ''Teacher_Train''),
       (''previous_config_offset'', JInt 0), (''eval_har'', JBool True)],
      [(''type'', JStr ''self_har''), (''tag'', JStr ''Self_HAR_Pre_Train''),
       (''previous_config_offset'', JInt 1)],
      [(''type'', JStr ''har_full_fine_tune''), (''tag'', JStr ''Student_Fine_Tune''),
       (''previous_config_offset'', JInt 1), (''eval_har'', JBool True)],
      [(''type'', JStr ''har_linear_train''), (''tag'', JStr ''Student_Linear_Eval''),
       (''previous_config_offset'', JInt 2), (''eval_har'', JBool True)]]"

definition example_core :: layer where
  "example_core = create_1d_conv_core_model creation_order [52, 3] ''base_model''"

text \<open>Counting in a trace.\<close>

definition is_dataset_write :: "string \<Rightarrow> action \<Rightarrow> bool" where
  "is_dataset_write k a = (case a of DatasetWrite k' \<Rightarrow> k' = k | _ \<Rightarrow> False)"

definition is_training :: "nat \<Rightarrow> action \<Rightarrow> bool" where
  "is_training i a = (case a of TrainModel i' m s \<Rightarrow> i' = i | _ \<Rightarrow> False)"

text \<open>The models that the three head-attaching functions build on the example core model.\<close>

definition example_har :: layer where
  "example_har =
     keras_Model creation_order
       [(Layer (InputLayer [52, 3]) (Some ''input'') True, []),
        (example_core, [0]),
        (Layer (Dense 1024 ''relu'') None True, [1]),
        (Layer (Dense 4 ''linear'') None True, [2]),
        (Layer Softmax None True, [3])]
       [0] [4] ''HAR''"

definition example_linear :: layer where
  "example_linear =
     keras_Model creation_order
       [(Layer (InputLayer [52, 3]) (Some ''input'') True, []),
        (example_core, [0]),
        (Layer (Dense 4 ''linear'') None True, [1]),
        (Layer Softmax None True, [2])]
       [0] [3] ''Linear''"

definition example_multitask :: layer where
  "example_multitask =
     keras_Model creation_order
       ([(Layer (InputLayer [52, 3]) (Some ''input'') True, []), (example_core, [0])]
        @ task_heads 2 [''noised'', ''scaled'']
        @ [(Layer (Dense 1024 ''relu'') None True, [1]),
           (Layer (Dense 4 ''linear'') None True, [6]),
           (Layer Softmax (Some ''har'') True, [7])])
       [0] (task_outputs 2 [''noised'', ''scaled''] @ [8]) ''StudentPreTrain''"

definition example_trained_state :: run_state where
  "example_trained_state = (example_state [])\<lparr>optimizer := Some (Adam (JFloat 0.0003))\<rparr>"

text \<open>
  Further pipelines: an experiment whose offset refers to the experiment after it, and
  which has a field that is not a configuration field; an experiment followed by one
  whose offset leads past the end of the list; and a \<^verbatim>\<open>transform_train\<close> experiment
  followed, at position 2, by an experiment that is evaluated.
\<close>

definition forward_reference_pipeline :: "config list" where
  "forward_reference_pipeline =
     [[(''type'', JStr ''har_full_train''), (''previous_config_offset'', JInt (- 1)),
       (''learning_rate'', JFloat 0.1)],
      [(''type'', JStr ''none'')]]"

definition late_error_pipeline :: "config list" where
  "late_error_pipeline =
     [[(''type'', JStr ''har_full_train'')],
      [(''type'', JStr ''har_full_train''), (''previous_config_offset'', JInt (- 1))]]"

definition transform_then_evaluate_pipeline :: "config list" where
  "transform_then_evaluate_pipeline =
     [[(''type'', JStr ''transform_train'')],
      [(''type'', JStr ''none'')],
      [(''type'', JStr ''har_full_train''), (''eval_har'', JBool True)]]"

definition is_prepare_unlabelled :: "action \<Rightarrow> bool" where
  "is_prepare_unlabelled a = (case a of PrepareUnlabelled \<Rightarrow> True | _ \<Rightarrow> False)"

section \<open>Properties of the default resolution\<close>

lemma default_value_of_simps:
  "default_value_of now ''type'' = Some (JStr ''none'')"
  "default_value_of now ''tag'' = Some (JStr now)"
  "default_value_of now ''previous_config_offset'' = Some (JInt 0)"
  "default_value_of now ''initial_learning_rate'' = Some (JFloat 0.0003)"
  "default_value_of now ''epochs'' = Some (JInt 30)"
  "default_value_of now ''batch_size'' = Some (JInt 300)"
  "default_value_of now ''optimizer'' = Some (JStr ''adam'')"
  "default_value_of now ''self_training_samples_per_class'' = Some (JInt 10000)"
  "default_value_of now ''self_training_minimum_confidence'' = Some (JFloat 0.0)"
  "default_value_of now ''self_training_plurality_only'' = Some (JBool True)"
  "default_value_of now ''trained_model_path'' = Some (JStr [])"
  "default_value_of now ''trained_model_type'' = Some (JStr ''unknown'')"
  "default_value_of now ''eval_results'' = Some (JDict [])"
  "default_value_of now ''eval_har'' = Some (JBool False)"
  by (simp_all add: default_value_of_def)

lemma default_value_of_documented:
  "(entry, d) \<in> set (documented_defaults now) \<Longrightarrow> default_value_of now entry = Some d"
  unfolding documented_defaults_def by (auto simp: default_value_of_simps)

text \<open>
  Claim C4. For every field of the default table, resolving it in a configuration that
  lacks the field returns the documented default; the default is written back (so the
  field is present afterwards, and no other field changes) unless the caller passes
  \<^verbatim>\<open>set_value=False\<close>, in which case the configuration is left as it was. If the field is
  present, the stored value is returned and the configuration is unchanged.
\<close>

theorem C4_default_resolution:
  assumes "(entry, d) \<in> set (documented_defaults now)"
  shows "(map_of cfg entry = None \<longrightarrow>
           (\<exists>cfg' out. get_config_default_value_if_none now cfg entry set_value = Inr (d, cfg', out)
              \<and> (set_value \<longrightarrow> map_of cfg' entry = Some d
                    \<and> (\<forall>k. k \<noteq> entry \<longrightarrow> map_of cfg' k = map_of cfg k))
              \<and> (\<not> set_value \<longrightarrow> cfg' = cfg)))
       \<and> (\<forall>v. map_of cfg entry = Some v \<longrightarrow>
           get_config_default_value_if_none now cfg entry set_value = Inr (v, cfg, []))"
  using default_value_of_documented [OF assms]
  by (auto simp: get_config_default_value_if_none_def update_conv')

theorem C4_default_resolution_witness:
  "(''epochs'', JInt 30) \<in> set (documented_defaults ''20211231-235959'')
   \<and> map_of [(''type'', JStr ''har_full_train'')] ''epochs'' = None
   \<and> get_config_default_value_if_none ''20211231-235959''
         [(''type'', JStr ''har_full_train'')] ''epochs'' True
       = Inr (JInt 30, [(''type'', JStr ''har_full_train''), (''epochs'', JInt 30)],
              [Info ''epochs'' (JInt 30)])
   \<and> map_of [(''type'', JStr ''har_full_train'')] ''type'' = Some (JStr ''har_full_train'')
   \<and> get_config_default_value_if_none ''20211231-235959''
         [(''type'', JStr ''har_full_train'')] ''type'' True
       = Inr (JStr ''har_full_train'', [(''type'', JStr ''har_full_train'')], [])"
proof -
  have mem: "(''epochs'', JInt 30) \<in> set (documented_defaults ''20211231-235959'')"
    and mem': "(''type'', JStr ''none'') \<in> set (documented_defaults ''20211231-235959'')"
    by (simp_all add: documented_defaults_def)
  show ?thesis
    using mem C4_default_resolution [OF mem, of "[(''type'', JStr ''har_full_train'')]" True]
      C4_default_resolution [OF mem', of "[(''type'', JStr ''har_full_train'')]" True]
    by (simp add: get_config_default_value_if_none_def default_value_of_simps)
qed


section \<open>Properties of the models\<close>

subsection \<open>Freezing layers\<close>

lemma with_trainable_idem [simp]: "with_trainable b (with_trainable c l) = with_trainable b l"
  by (simp add: with_trainable_def)

lemma length_set_trainable [simp]: "length (set_trainable b ns k) = length ns"
  by (simp add: set_trainable_def)

lemma length_foldl_set_trainable [simp]: "length (foldl (set_trainable b) ns ks) = length ns"
  by (induction ks arbitrary: ns) simp_all

lemma nth_set_trainable:
  "k < length ns \<Longrightarrow>
   set_trainable b ns a ! k = (if k = a then (with_trainable b (fst (ns ! k)), snd (ns ! k)) else ns ! k)"
  by (simp add: set_trainable_def)

lemma nth_foldl_set_trainable:
  "k < length ns \<Longrightarrow>
   foldl (set_trainable b) ns ks ! k
     = (if k \<in> set ks then (with_trainable b (fst (ns ! k)), snd (ns ! k)) else ns ! k)"
proof (induction ks arbitrary: ns)
  case Nil
  then show ?case by simp
next
  case (Cons a ks)
  have "k < length (set_trainable b ns a)" using Cons.prems by simp
  from Cons.IH [OF this] show ?case
    using Cons.prems by (simp add: nth_set_trainable)
qed

lemma layers_Functional:
  "layer_kind m = Functional ns ins outs ord \<Longrightarrow> layers m = Inr (map (\<lambda>k. fst (ns ! k)) ord)"
  by (simp add: layers_def)








subsection \<open>Outputs of the multi-task model\<close>

lemma length_task_heads [simp]: "length (task_heads n tasks) = 2 * length tasks"
  by (induction tasks arbitrary: n) simp_all





subsection \<open>The core model inside a composite model\<close>

lemma precedes_in_set: "precedes ord p k \<Longrightarrow> p \<in> set ord"
  unfolding precedes_def by (meson set_takeWhileD)

lemma precedes_trans:
  assumes "precedes ord a b" "precedes ord b c"
  shows "precedes ord a c"
proof -
  let ?T = "takeWhile (\<lambda>x. x \<noteq> c) ord"
  have split: "ord = ?T @ dropWhile (\<lambda>x. x \<noteq> c) ord" by simp
  have b: "b \<in> set ?T" using assms(2) by (simp add: precedes_def)
  have "takeWhile (\<lambda>x. x \<noteq> b) ord = takeWhile (\<lambda>x. x \<noteq> b) (?T @ dropWhile (\<lambda>x. x \<noteq> c) ord)"
    by simp
  also have "\<dots> = takeWhile (\<lambda>x. x \<noteq> b) ?T"
    using b by (intro takeWhile_append1 [of b]) auto
  finally have "set (takeWhile (\<lambda>x. x \<noteq> b) ord) \<subseteq> set ?T"
    by (metis set_takeWhileD subsetI)
  then show ?thesis using assms(1) by (auto simp: precedes_def)
qed

lemma precedes_not_self_later:
  assumes "precedes ord x k"
  shows "\<not> precedes ord k x"
proof
  assume "precedes ord k x"
  with assms have "precedes ord x x" by (rule precedes_trans)
  then show False by (auto simp: precedes_def dest: set_takeWhileD)
qed

lemma rooted_from_append:
  "rooted_from n xs \<Longrightarrow> rooted_from (n + length xs) ys \<Longrightarrow> rooted_from n (xs @ ys)"
  unfolding rooted_from_def
proof (intro allI impI)
  fix i
  assume xs: "\<forall>i<length xs. xs ! i \<noteq> [] \<and> (\<forall>p\<in>set (xs ! i). 1 \<le> p \<and> p < n + i)"
     and ys: "\<forall>i<length ys. ys ! i \<noteq> [] \<and> (\<forall>p\<in>set (ys ! i). 1 \<le> p \<and> p < n + length xs + i)"
     and i: "i < length (xs @ ys)"
  show "(xs @ ys) ! i \<noteq> [] \<and> (\<forall>p\<in>set ((xs @ ys) ! i). 1 \<le> p \<and> p < n + i)"
  proof (cases "i < length xs")
    case True
    then show ?thesis using xs by (simp add: nth_append)
  next
    case False
    then have "i - length xs < length ys" using i by simp
    with ys have "ys ! (i - length xs) \<noteq> []
        \<and> (\<forall>p\<in>set (ys ! (i - length xs)). 1 \<le> p \<and> p < n + length xs + (i - length xs))"
      by blast
    then show ?thesis using False by (simp add: nth_append)
  qed
qed

lemma rooted_from_task_heads: "2 \<le> n \<Longrightarrow> rooted_from n (map snd (task_heads n tasks))"
proof (induction tasks arbitrary: n)
  case Nil
  then show ?case by (simp add: rooted_from_def)
next
  case (Cons t ts)
  have "rooted_from n [[1], [n]]"
    using Cons.prems by (auto simp: rooted_from_def less_Suc_eq)
  moreover have "rooted_from (n + length [[1::nat], [n]]) (map snd (task_heads (n + 2) ts))"
    using Cons.IH [of "n + 2"] Cons.prems by simp
  ultimately have "rooted_from n ([[1], [n]] @ map snd (task_heads (n + 2) ts))"
    by (rule rooted_from_append)
  then show ?case by simp
qed


lemma dataflow_orderD:
  assumes "dataflow_order g outs ord"
  shows "distinct ord"
    and "out \<in> set outs \<Longrightarrow> out \<in> set ord"
    and "k \<in> set ord \<Longrightarrow> k < length g"
    and "k \<in> set ord \<Longrightarrow> p \<in> set (g ! k) \<Longrightarrow> precedes ord p k"
proof -
  from assms have d: "distinct ord"
    and l: "\<forall>out\<in>set outs. out \<in> set ord"
    and i: "\<forall>k\<in>set ord. k < length g \<and> (\<forall>p\<in>set (g ! k). precedes ord p k)"
    unfolding dataflow_order_def list_all_iff by simp_all
  show "distinct ord" by (rule d)
  show "out \<in> set outs \<Longrightarrow> out \<in> set ord" using l by blast
  show "k \<in> set ord \<Longrightarrow> k < length g" using i by blast
  show "k \<in> set ord \<Longrightarrow> p \<in> set (g ! k) \<Longrightarrow> precedes ord p k" using i by blast
qed

lemma rooted_nth:
  assumes "g = [] # [0] # rest" "rooted_from 2 rest" "2 \<le> k" "k < length g"
  shows "g ! k \<noteq> [] \<and> (\<forall>p\<in>set (g ! k). 1 \<le> p \<and> p < k)"
proof -
  obtain k' where k: "k = Suc (Suc k')"
    using assms(3) by (cases k) (auto, case_tac nat, auto)
  then have "k' < length rest" using assms(1,4) by simp
  with assms(2) have "rest ! k' \<noteq> [] \<and> (\<forall>p\<in>set (rest ! k'). 1 \<le> p \<and> p < 2 + k')"
    unfolding rooted_from_def by blast
  moreover have "g ! k = rest ! k'" using k assms(1) by simp
  ultimately show ?thesis using k by simp
qed

lemma after_core:
  assumes ord: "dataflow_order g outs ord"
    and g: "g = [] # [0] # rest" "rooted_from 2 rest"
  shows "x \<in> set ord \<Longrightarrow> 2 \<le> x \<Longrightarrow> precedes ord 1 x"
proof (induction x rule: less_induct)
  case (less x)
  have "x < length g" using dataflow_orderD(3) [OF ord less.prems(1)] .
  from rooted_nth [OF g less.prems(2) this]
  have ne: "g ! x \<noteq> []" and bound: "\<forall>p\<in>set (g ! x). 1 \<le> p \<and> p < x" by simp_all
  from ne obtain p where p: "p \<in> set (g ! x)" by (cases "g ! x") auto
  with bound have p1: "1 \<le> p" and p2: "p < x" by simp_all
  have px: "precedes ord p x" using dataflow_orderD(4) [OF ord less.prems(1) p] .
  show ?case
  proof (cases "p = 1")
    case True
    with px show ?thesis by simp
  next
    case False
    then have "2 \<le> p" using p1 by simp
    moreover have "p \<in> set ord" using px by (rule precedes_in_set)
    ultimately have "precedes ord 1 p" using less.IH [OF p2] by simp
    then show ?thesis using px by (rule precedes_trans)
  qed
qed


lemma dataflow_order_core_second:
  assumes ord: "dataflow_order g outs ord"
    and outs: "outs \<noteq> []" "\<forall>out\<in>set outs. 1 \<le> out"
    and g: "g = [] # [0] # rest" "rooted_from 2 rest"
  shows "2 \<le> length ord \<and> ord ! 1 = 1"
proof -
  have dist: "distinct ord" using dataflow_orderD(1) [OF ord] .
  obtain out where out: "out \<in> set outs" using outs(1) by (cases outs) auto
  have out_listed: "out \<in> set ord" using dataflow_orderD(2) [OF ord out] .
  have core_listed: "1 \<in> set ord"
  proof (cases "out = 1")
    case True
    then show ?thesis using out_listed by simp
  next
    case False
    moreover have "1 \<le> out" using outs(2) out by blast
    ultimately have "2 \<le> out" by simp
    then have "precedes ord 1 out" using after_core [OF ord g out_listed] by simp
    then show ?thesis by (rule precedes_in_set)
  qed
  let ?A = "takeWhile (\<lambda>x. x \<noteq> 1) ord"
  have "g ! 1 = [0]" using g(1) by simp
  then have "0 \<in> set (g ! 1)" by simp
  then have "precedes ord 0 1" using dataflow_orderD(4) [OF ord core_listed] by blast
  then have zero: "0 \<in> set ?A" by (simp add: precedes_def)
  have only_zero: "x = 0" if "x \<in> set ?A" for x
  proof (rule ccontr)
    assume "x \<noteq> 0"
    moreover have "x \<noteq> 1" using that set_takeWhileD by fastforce
    ultimately have "2 \<le> x" by simp
    moreover have "x \<in> set ord" using that by (meson set_takeWhileD)
    ultimately have "precedes ord 1 x" using after_core [OF ord g] by blast
    moreover have "precedes ord x 1" using that by (simp add: precedes_def)
    ultimately show False using precedes_not_self_later by blast
  qed
  have dA: "distinct ?A" using dist by (rule distinct_takeWhile)
  have A: "?A = [0]"
  proof (cases ?A)
    case Nil
    then show ?thesis using zero by simp
  next
    case (Cons a as)
    have "a = 0" using only_zero [of a] Cons by simp
    moreover have "as = []"
    proof (cases as)
      case Nil
      then show ?thesis .
    next
      case (Cons b bs)
      have "b = 0" using only_zero [of b] \<open>?A = a # as\<close> Cons by simp
      then show ?thesis using dA \<open>?A = a # as\<close> Cons \<open>a = 0\<close> by simp
    qed
    ultimately show ?thesis using Cons by simp
  qed
  let ?D = "dropWhile (\<lambda>x. x \<noteq> 1) ord"
  have D: "?D \<noteq> []" using core_listed by (simp add: dropWhile_eq_Nil_conv)
  then have "hd ?D = 1" using hd_dropWhile [of "\<lambda>x. x \<noteq> 1" ord] by simp
  with D obtain B where B: "?D = 1 # B" by (cases ?D) auto
  have "?A @ ?D = ord" by (rule takeWhile_dropWhile_id)
  then have "[0] @ (1 # B) = ord" by (simp only: A B)
  then have "ord = 0 # 1 # B" by simp
  then show ?thesis by (cases ord) auto
qed


lemma task_outputs_ge: "out \<in> set (task_outputs n tasks) \<Longrightarrow> n < out"
  by (induction tasks arbitrary: n) fastforce+

lemma task_outputs_Nil [simp]: "task_outputs n tasks = [] \<longleftrightarrow> tasks = []"
  by (cases tasks) simp_all

lemma extract_core_of_keras_Model:
  assumes wl: "well_listed (keras_Model lo ns ins outs name)"
    and ns: "ns = input # (core, inb) # others" "map snd ns = [] # [0] # rest" "rooted_from 2 rest"
    and outs: "outs \<noteq> []" "\<forall>out\<in>set outs. 1 \<le> out"
  shows "extract_core_model (keras_Model lo ns ins outs name) = Inr core"
proof -
  let ?ord = "lo (map snd ns) outs"
  have "dataflow_order (map snd ns) outs ?ord"
    using wl by (simp add: well_listed_def keras_Model_def)
  from dataflow_order_core_second [OF this outs ns(2,3)]
  have len: "2 \<le> length ?ord" and second: "?ord ! 1 = 1" by simp_all
  have "py_index_position (length ?ord) 1 = Inr 1"
    using len by (simp add: py_index_position_def)
  then show ?thesis
    using len second ns(1)
    by (simp add: extract_core_model_def layers_def keras_Model_def py_index_def bind_err_def)
qed

text \<open>
  Claim C9. For every core model and each of the three functions that attach a head, the
  composite model holds the core model as its layer at index 1, so \<^verbatim>\<open>extract_core_model\<close>
  returns the core model the head was attached to. The listing of the layers is the one
  Keras computes; what is used of it is that it is an order of the data flow
  (\<open>well_listed\<close>). A multi-task model needs at least one output.
\<close>

theorem C9_core_model_round_trip:
  "(\<forall>m. attach_full_har_classification_head lo core n_out num_units name = Inr m
        \<longrightarrow> well_listed m \<longrightarrow> extract_core_model m = Inr core)
   \<and> (\<forall>m. attach_linear_classification_head lo core n_out name = Inr m
        \<longrightarrow> well_listed m \<longrightarrow> extract_core_model m = Inr core)
   \<and> (\<forall>m. attach_multitask_transform_head lo core tasks with_har_head har_shape
             num_units_har name = Inr m
        \<longrightarrow> tasks \<noteq> [] \<or> with_har_head
        \<longrightarrow> well_listed m \<longrightarrow> extract_core_model m = Inr core)"
proof (intro conjI allI impI)
  fix m
  assume m: "attach_full_har_classification_head lo core n_out num_units name = Inr m"
    and wl: "well_listed m"
  from m obtain shape where
    "m = keras_Model lo
         [(Layer (InputLayer shape) (Some ''input'') True, []), (core, [0]),
          (Layer (Dense num_units ''relu'') None True, [1]),
          (Layer (Dense n_out ''linear'') None True, [2]),
          (Layer Softmax None True, [3])] [0] [4] name"
    by (auto simp: attach_full_har_classification_head_def bind_err_def split: sum.splits)
  moreover have "rooted_from 2 [[1], [2], [3::nat]]"
    by (auto simp: rooted_from_def less_Suc_eq)
  ultimately show "extract_core_model m = Inr core"
    using wl by (auto intro!: extract_core_of_keras_Model)
next
  fix m
  assume m: "attach_linear_classification_head lo core n_out name = Inr m"
    and wl: "well_listed m"
  from m obtain shape where
    "m = keras_Model lo
         [(Layer (InputLayer shape) (Some ''input'') True, []), (core, [0]),
          (Layer (Dense n_out ''linear'') None True, [1]),
          (Layer Softmax None True, [2])] [0] [3] name"
    by (auto simp: attach_linear_classification_head_def bind_err_def split: sum.splits)
  moreover have "rooted_from 2 [[1], [2::nat]]"
    by (auto simp: rooted_from_def less_Suc_eq)
  ultimately show "extract_core_model m = Inr core"
    using wl by (auto intro!: extract_core_of_keras_Model)
next
  fix m
  assume m: "attach_multitask_transform_head lo core tasks with_har_head har_shape
               num_units_har name = Inr m"
    and nonempty: "tasks \<noteq> [] \<or> with_har_head"
    and wl: "well_listed m"
  from m obtain shape where shape: "input_shape_of core = Inr shape"
    by (auto simp: attach_multitask_transform_head_def bind_err_def split: sum.splits)
  let ?input = "(Layer (InputLayer shape) (Some ''input'') True, [] :: nat list)"
  have heads: "rooted_from 2 (map snd (task_heads 2 tasks))"
    by (rule rooted_from_task_heads) simp
  show "extract_core_model m = Inr core"
  proof (cases with_har_head)
    case False
    then have m': "m = keras_Model lo (?input # (core, [0]) # task_heads 2 tasks) [0]
                         (task_outputs 2 tasks) name"
      using m shape by (simp add: attach_multitask_transform_head_def bind_err_def Let_def)
    have "tasks \<noteq> []" using nonempty False by simp
    then have "task_outputs 2 tasks \<noteq> []" by simp
    moreover have "\<forall>out\<in>set (task_outputs 2 tasks). 1 \<le> out"
      using task_outputs_ge by fastforce
    ultimately show ?thesis
      using wl heads unfolding m'
      by (intro extract_core_of_keras_Model [where rest = "map snd (task_heads 2 tasks)"]) simp_all
  next
    case True
    then obtain n where n: "har_shape = Some n"
      using m shape
      by (cases har_shape)
         (simp_all add: attach_multitask_transform_head_def bind_err_def Let_def)
    let ?L = "2 + 2 * length tasks"
    let ?har = "[(Layer (Dense num_units_har ''relu'') None True, [1::nat]),
                 (Layer (Dense n ''linear'') None True, [?L]),
                 (Layer Softmax (Some ''har'') True, [?L + 1])]"
    have m': "m = keras_Model lo (?input # (core, [0]) # (task_heads 2 tasks @ ?har)) [0]
                    (task_outputs 2 tasks @ [?L + 2]) name"
      using m shape True n
      by (simp add: attach_multitask_transform_head_def bind_err_def Let_def)
    have "rooted_from (2 + length (map snd (task_heads 2 tasks))) [[1], [?L], [?L + 1]]"
      by (auto simp: rooted_from_def less_Suc_eq) (cases tasks, simp_all)
    with heads have "rooted_from 2 (map snd (task_heads 2 tasks) @ [[1], [?L], [?L + 1]])"
      by (rule rooted_from_append)
    moreover have "\<forall>out\<in>set (task_outputs 2 tasks @ [?L + 2]). 1 \<le> out"
      using task_outputs_ge by fastforce
    ultimately show ?thesis
      using wl unfolding m'
      by (intro extract_core_of_keras_Model
            [where rest = "map snd (task_heads 2 tasks) @ [[1], [?L], [?L + 1]]"]) simp_all
  qed
qed
section \<open>Properties of the experiment runner\<close>

subsection \<open>Running pieces of the script\<close>

lemma then_do_apply:
  "then_do m f st = (case m st of (Inl s, st') \<Rightarrow> (Inl s, st') | (Inr x, st') \<Rightarrow> f x st')"
  by (simp add: then_do_def)

lemma then_do_Inr: "m st = (Inr x, st') \<Longrightarrow> then_do m f st = f x st'"
  by (simp add: then_do_def)

lemma then_do_Inl: "m st = (Inl s, st') \<Longrightarrow> then_do m f st = (Inl s, st')"
  by (simp add: then_do_def)

lemma prog_apply [simp]:
  "ret x st = (Inr x, st)"
  "stop s st = (Inl s, st)"
  "lift (Inr x) st = (Inr x, st)"
  "lift (Inl err) st = (Inl (Raised err), st)"
  "reading f st = (Inr (f st), st)"
  "modify g st = (Inr (), g st)"
  "emit as st = (Inr (), st\<lparr>trace := trace st @ as\<rparr>)"
  "when_do True m = m"
  "when_do False m st = (Inr (), st)"
  by (simp_all add: ret_def stop_def lift_def reading_def modify_def emit_def when_do_def)

lemma map_of_with_default:
  "map_of (with_default entry d cfg) k
     = (if k = entry then Some (field_or cfg entry d) else map_of cfg k)"
  by (auto simp: with_default_def field_or_def update_conv' split: option.splits)

lemma field_or_with_default:
  "field_or (with_default entry d cfg) k d'
     = (if k = entry then field_or cfg entry d else field_or cfg k d')"
  by (simp add: field_or_def map_of_with_default)

lemma config_value_True:
  assumes "default_value_of (clock e) entry = Some d"
  shows "config_value e p entry True st
     = (Inr (field_or (experiment_configs st ! p) entry d),
        st\<lparr>experiment_configs :=
              (experiment_configs st)[p := with_default entry d (experiment_configs st ! p)],
            trace := trace st @ default_notice entry d (experiment_configs st ! p)\<rparr>)"
  using assms
  by (cases "map_of (experiment_configs st ! p) entry")
     (simp_all add: config_value_def then_do_apply get_config_default_value_if_none_def
        field_or_def with_default_def default_notice_def)

lemma config_value_False:
  assumes "default_value_of (clock e) entry = Some d"
  shows "config_value e p entry False st = (Inr (field_or (experiment_configs st ! p) entry d), st)"
  using assms
  by (cases "map_of (experiment_configs st ! p) entry")
     (simp_all add: config_value_def then_do_apply get_config_default_value_if_none_def
        field_or_def)

lemma config_get_apply:
  "config_get p entry st
     = (case map_of (experiment_configs st ! p) entry of
          None \<Rightarrow> (Inl (Raised KeyError), st) | Some v \<Rightarrow> (Inr v, st))"
  by (simp add: config_get_def then_do_apply py_getitem_def split: option.splits)

lemma resolve_previous_config_apply:
  "resolve_previous_config e i st
     = (let cfgs = experiment_configs st;
            offset = field_or (cfgs ! i) ''previous_config_offset'' (JInt 0);
            st' = st\<lparr>experiment_configs :=
                      cfgs[i := with_default ''previous_config_offset'' (JInt 0) (cfgs ! i)],
                    trace := trace st @ default_notice ''previous_config_offset'' (JInt 0) (cfgs ! i)\<rparr>
        in if py_eq_zero offset then (Inr None, st')
           else (case py_int_minus (int i) offset of
                   Inl x \<Rightarrow> (Inl (Raised x), st')
                 | Inr k \<Rightarrow>
                     (case py_index_position (length cfgs) k of
                        Inl x \<Rightarrow> (Inl (Raised x), st')
                      | Inr p \<Rightarrow> (Inr (Some p), st'))))" if "i < length (experiment_configs st)"
  using that
  by (simp add: resolve_previous_config_def then_do_apply
      config_value_True [OF default_value_of_simps(3)] config_get_apply map_of_with_default
      Let_def split: sum.splits)


lemma run_experiment_apply:
  "run_experiment e j i st
     = (let cfgs = experiment_configs st;
            experiment_type = field_or (cfgs ! i) ''type'' (JStr ''none'');
            st' = st\<lparr>experiment_configs := cfgs[i := with_default ''type'' (JStr ''none'') (cfgs ! i)],
                    trace := trace st @ default_notice ''type'' (JStr ''none'') (cfgs ! i)\<rparr>
        in if py_eq_str experiment_type ''none'' then (Inl LoopContinue, st')
           else then_do (resolve_previous_config e i) (run_branches e j i experiment_type) st')"
  by (simp add: run_experiment_def then_do_apply config_value_True [OF default_value_of_simps(1)]
      Let_def)

text \<open>
  Claim C1, as amended. For the experiment at position \<open>i\<close> of the list, the resolution
  yields no previous configuration exactly when the offset (0 when the field is absent) is
  equal to 0. Otherwise, for an integer offset \<open>n\<close>, it yields the configuration at the
  Python index \<open>i - n\<close> of the same list: position \<open>i - n\<close> when that is a position of the
  list, position \<open>len + i - n\<close> when \<open>-len \<le> i - n < 0\<close>, and it raises \<^verbatim>\<open>IndexError\<close> for any
  other index. The list is the same list, with the default offset written into the
  configuration if it was absent, and the resolution runs before the branches of every
  experiment whose type is not \<^verbatim>\<open>none\<close>.
\<close>

theorem C1_previous_config_resolution:
  assumes "i < length (experiment_configs st)"
  shows "(fst (resolve_previous_config e i st) = Inr None
            \<longleftrightarrow> py_eq_zero (field_or (experiment_configs st ! i) ''previous_config_offset'' (JInt 0)))
       \<and> (\<forall>n. field_or (experiment_configs st ! i) ''previous_config_offset'' (JInt 0) = JInt n
              \<longrightarrow> n \<noteq> 0 \<longrightarrow>
            fst (resolve_previous_config e i st)
              = (if 0 \<le> int i - n \<and> int i - n < int (length (experiment_configs st))
                 then Inr (Some (nat (int i - n)))
                 else if int i - n < 0 \<and> - int (length (experiment_configs st)) \<le> int i - n
                 then Inr (Some (nat (int (length (experiment_configs st)) + (int i - n))))
                 else Inl (Raised IndexError)))
       \<and> experiment_configs (snd (resolve_previous_config e i st))
            = (experiment_configs st)
                [i := with_default ''previous_config_offset'' (JInt 0) (experiment_configs st ! i)]
       \<and> (\<not> py_eq_str (field_or (experiment_configs st ! i) ''type'' (JStr ''none'')) ''none''
            \<longrightarrow> (\<exists>st'. run_experiment e j i st
                   = then_do (resolve_previous_config e i)
                       (run_branches e j i (field_or (experiment_configs st ! i) ''type'' (JStr ''none'')))
                       st'))"
proof (intro conjI allI impI)
  let ?off = "field_or (experiment_configs st ! i) ''previous_config_offset'' (JInt 0)"
  show "fst (resolve_previous_config e i st) = Inr None \<longleftrightarrow> py_eq_zero ?off"
    by (auto simp: resolve_previous_config_apply [OF assms] Let_def split: sum.splits)
next
  fix n
  assume "field_or (experiment_configs st ! i) ''previous_config_offset'' (JInt 0) = JInt n" "n \<noteq> 0"
  then show "fst (resolve_previous_config e i st)
      = (if 0 \<le> int i - n \<and> int i - n < int (length (experiment_configs st))
         then Inr (Some (nat (int i - n)))
         else if int i - n < 0 \<and> - int (length (experiment_configs st)) \<le> int i - n
         then Inr (Some (nat (int (length (experiment_configs st)) + (int i - n))))
         else Inl (Raised IndexError))"
    by (simp add: resolve_previous_config_apply [OF assms] Let_def py_eq_zero_def
        py_int_minus_def py_index_position_def)
next
  show "experiment_configs (snd (resolve_previous_config e i st))
      = (experiment_configs st)
          [i := with_default ''previous_config_offset'' (JInt 0) (experiment_configs st ! i)]"
    by (simp add: resolve_previous_config_apply [OF assms] Let_def split: sum.splits)
next
  assume "\<not> py_eq_str (field_or (experiment_configs st ! i) ''type'' (JStr ''none'')) ''none''"
  then show "\<exists>st'. run_experiment e j i st
      = then_do (resolve_previous_config e i)
          (run_branches e j i (field_or (experiment_configs st ! i) ''type'' (JStr ''none''))) st'"
    by (auto simp: run_experiment_apply Let_def)
qed

text \<open>
  The claim as stated fails for an offset that leads out of the list: with one experiment
  whose offset is \<open>-1\<close>, the offset is not 0 and no configuration is yielded.
\<close>

theorem C1_offset_out_of_range:
  "\<not> py_eq_zero (field_or (experiment_configs (example_state
          [[(''type'', JStr ''har_full_train''), (''previous_config_offset'', JInt (- 1))]]) ! 0)
        ''previous_config_offset'' (JInt 0))
   \<and> fst (resolve_previous_config example_env 0 (example_state
          [[(''type'', JStr ''har_full_train''), (''previous_config_offset'', JInt (- 1))]]))
       = Inl (Raised IndexError)"
  by (simp add: resolve_previous_config_apply example_state_def Let_def field_or_def
      py_eq_zero_def py_int_minus_def py_index_position_def)

theorem C1_previous_config_resolution_witness:
  "1 < length (experiment_configs (example_state sample_pipeline))
   \<and> field_or (experiment_configs (example_state sample_pipeline) ! 1) ''previous_config_offset''
       (JInt 0) = JInt 1
   \<and> fst (resolve_previous_config example_env 1 (example_state sample_pipeline)) = Inr (Some 0)
   \<and> field_or (experiment_configs (example_state sample_pipeline) ! 0) ''previous_config_offset''
       (JInt 0) = JInt 0
   \<and> fst (resolve_previous_config example_env 0 (example_state sample_pipeline)) = Inr None"
proof -
  have len1: "1 < length (experiment_configs (example_state sample_pipeline))"
    and len0: "0 < length (experiment_configs (example_state sample_pipeline))"
    by (simp_all add: example_state_def sample_pipeline_def)
  have off1: "field_or (experiment_configs (example_state sample_pipeline) ! 1)
      ''previous_config_offset'' (JInt 0) = JInt 1"
    and off0: "field_or (experiment_configs (example_state sample_pipeline) ! 0)
      ''previous_config_offset'' (JInt 0) = JInt 0"
    by (simp_all add: example_state_def sample_pipeline_def field_or_def)
  show ?thesis
    using C1_previous_config_resolution [OF len1, of example_env 0]
      C1_previous_config_resolution [OF len0, of example_env 0] len1 off1 off0
    by (simp add: py_eq_zero_def example_state_def sample_pipeline_def)
qed
subsection \<open>A missing previous model\<close>

lemma usable_previous_apply:
  "usable_previous e previous_config st
     = (Inr (case previous_config of
               None \<Rightarrow> None
             | Some p \<Rightarrow>
                 if py_eq_str (field_or (experiment_configs st ! p) ''trained_model_path'' (JStr ''''))
                      ''''
                 then None else Some p), st)"
  by (cases previous_config)
     (simp_all add: usable_previous_def then_do_apply
        config_value_False [OF default_value_of_simps(11)])

lemma training_setup_apply:
  "\<exists>st'. training_setup e i st
            = (Inr (field_or (experiment_configs st ! i) ''initial_learning_rate'' (JFloat 0.0003)), st')
      \<and> prepared_datasets st' = prepared_datasets st
      \<and> length (experiment_configs st') = length (experiment_configs st)
      \<and> (\<forall>p. field_or (experiment_configs st' ! p) ''trained_model_path'' (JStr '''')
               = field_or (experiment_configs st ! p) ''trained_model_path'' (JStr ''''))
      \<and> (\<exists>as. trace st' = trace st @ as)"
  if "i < length (experiment_configs st)"
  using that
  by (simp add: training_setup_def then_do_apply
        config_value_True [OF default_value_of_simps(4)]
        config_value_True [OF default_value_of_simps(5)]
        config_value_True [OF default_value_of_simps(6)]
        config_value_True [OF default_value_of_simps(7)]
        field_or_with_default nth_list_update)

lemma ensure_unlabelled_apply:
  assumes "''labelled'' \<in> set (prepared_datasets st)"
  shows "\<exists>st'. ensure_unlabelled e st = (Inr (), st')
      \<and> experiment_configs st' = experiment_configs st
      \<and> (\<exists>as. trace st' = trace st @ as)"
  using assms
  by (cases "max_unlabelled_windows e")
     (simp_all add: ensure_unlabelled_def load_unlabelled_dataset_def dataset_write_def
        then_do_apply insert_key_def)

lemma run_branches_eval_har_missing:
  assumes i: "i < length (experiment_configs st)"
    and missing: "previous_config = None
       \<or> (\<exists>p. previous_config = Some p
             \<and> field_or (experiment_configs st ! p) ''trained_model_path'' (JStr '''') = JStr '''')"
  shows "\<exists>st'. run_branches e j i (JStr ''eval_har'') previous_config st = (Inl LoopContinue, st')
      \<and> last (trace st') = Printed ''ERROR Evaluation model does not exist''
      \<and> (\<forall>k. k \<noteq> ''tag'' \<longrightarrow>
            map_of (experiment_configs st' ! i) k = map_of (experiment_configs st ! i) k)"
proof -
  have path: "field_or ((experiment_configs st)[i := with_default ''tag'' (JStr (clock e))
                 (experiment_configs st ! i)] ! p) ''trained_model_path'' (JStr '''')
      = field_or (experiment_configs st ! p) ''trained_model_path'' (JStr '''')" for p
    using i by (simp add: nth_list_update field_or_with_default)
  show ?thesis
    using i missing
    by (auto simp: run_branches_def then_do_apply config_value_True [OF default_value_of_simps(2)]
        eval_har_branch_def usable_previous_apply py_eq_str_def path map_of_with_default)
qed

lemma run_branches_self_training_missing:
  assumes i: "i < length (experiment_configs st)"
    and ty: "experiment_type = JStr ''self_training'' \<or> experiment_type = JStr ''self_har''"
    and labelled: "''labelled'' \<in> set (prepared_datasets st)"
    and missing: "previous_config = None
       \<or> (\<exists>p. previous_config = Some p
             \<and> field_or (experiment_configs st ! p) ''trained_model_path'' (JStr '''') = JStr '''')"
  shows "\<exists>st'. run_branches e j i experiment_type previous_config st = (Inl LoopBreak, st')
      \<and> last (trace st') = Printed ''ERROR No previous model for self-training''"
proof -
  let ?st1 = "st\<lparr>experiment_configs := (experiment_configs st)
                   [i := with_default ''tag'' (JStr (clock e)) (experiment_configs st ! i)],
                 trace := trace st @ default_notice ''tag'' (JStr (clock e)) (experiment_configs st ! i)\<rparr>"
  have i1: "i < length (experiment_configs ?st1)" using i by simp
  have path1: "field_or (experiment_configs ?st1 ! p) ''trained_model_path'' (JStr '''')
      = field_or (experiment_configs st ! p) ''trained_model_path'' (JStr '''')" for p
    using i by (simp add: nth_list_update field_or_with_default)
  from training_setup_apply [OF i1, of e] obtain st2 where
    st2: "training_setup e i ?st1
            = (Inr (field_or (experiment_configs ?st1 ! i) ''initial_learning_rate'' (JFloat 0.0003)), st2)"
    and pd2: "prepared_datasets st2 = prepared_datasets ?st1"
    and path2: "\<And>p. field_or (experiment_configs st2 ! p) ''trained_model_path'' (JStr '''')
                 = field_or (experiment_configs ?st1 ! p) ''trained_model_path'' (JStr '''')"
    by blast
  have "''labelled'' \<in> set (prepared_datasets st2)" using labelled pd2 by simp
  from ensure_unlabelled_apply [OF this, of e] obtain st3 where
    st3: "ensure_unlabelled e st2 = (Inr (), st3)"
    and cfg3: "experiment_configs st3 = experiment_configs st2"
    by blast
  have usable: "usable_previous e previous_config st3 = (Inr None, st3)"
    using missing path1 path2 cfg3
    by (auto simp: usable_previous_apply py_eq_str_def)
  have self: "self_training_branch e j i t previous_config st2
      = (Inl LoopBreak, st3\<lparr>trace := trace st3 @ [Printed ''ERROR No previous model for self-training'']\<rparr>)"
    for t
    by (simp add: self_training_branch_def then_do_apply st3 usable)
  have "run_branches e j i experiment_type previous_config st
      = (Inl LoopBreak, st3\<lparr>trace := trace st3 @ [Printed ''ERROR No previous model for self-training'']\<rparr>)"
    using ty
    by (auto simp: run_branches_def then_do_apply config_value_True [OF default_value_of_simps(2)]
        py_eq_str_def st2 self)
  then show ?thesis by simp
qed

text \<open>
  Claim C2. When the resolved previous configuration is absent or has an empty
  \<^verbatim>\<open>trained_model_path\<close>: an \<^verbatim>\<open>eval_har\<close> experiment prints the error, leaves its own
  \<^verbatim>\<open>eval_results\<close> as they were and the loop goes on with the next experiment; a
  \<^verbatim>\<open>self_training\<close> or \<^verbatim>\<open>self_har\<close> experiment prints the error and the loop ends without
  running any of the remaining experiments.
\<close>

theorem C2_missing_previous_model:
  assumes i: "i < length (experiment_configs st)"
    and prev: "resolve_previous_config e i st = (Inr previous_config, st1)"
    and missing: "previous_config = None
       \<or> (\<exists>p. previous_config = Some p
             \<and> field_or (experiment_configs st1 ! p) ''trained_model_path'' (JStr '''') = JStr '''')"
  shows "(map_of (experiment_configs st ! i) ''type'' = Some (JStr ''eval_har'') \<longrightarrow>
           (\<exists>st'. run_experiment e j i st = (Inl LoopContinue, st')
              \<and> last (trace st') = Printed ''ERROR Evaluation model does not exist''
              \<and> map_of (experiment_configs st' ! i) ''eval_results''
                  = map_of (experiment_configs st ! i) ''eval_results''
              \<and> (\<forall>rest. run_experiments e j (i # rest) st = run_experiments e j rest st')))
       \<and> ((map_of (experiment_configs st ! i) ''type'' = Some (JStr ''self_training'')
            \<or> map_of (experiment_configs st ! i) ''type'' = Some (JStr ''self_har''))
           \<and> ''labelled'' \<in> set (prepared_datasets st) \<longrightarrow>
           (\<exists>st'. run_experiment e j i st = (Inl LoopBreak, st')
              \<and> last (trace st') = Printed ''ERROR No previous model for self-training''
              \<and> (\<forall>rest. run_experiments e j (i # rest) st = (Inr (), st'))))"
proof -
  have st1: "st1 = st\<lparr>experiment_configs := (experiment_configs st)
                 [i := with_default ''previous_config_offset'' (JInt 0) (experiment_configs st ! i)],
               trace := trace st @ default_notice ''previous_config_offset'' (JInt 0)
                 (experiment_configs st ! i)\<rparr>"
    using prev by (auto simp: resolve_previous_config_apply [OF i] Let_def split: sum.splits if_splits)
  have i1: "i < length (experiment_configs st1)" using i st1 by simp
  have pd1: "prepared_datasets st1 = prepared_datasets st" using st1 by simp
  have keep: "k \<noteq> ''previous_config_offset'' \<Longrightarrow>
      map_of (experiment_configs st1 ! i) k = map_of (experiment_configs st ! i) k" for k
    using i st1 by (simp add: map_of_with_default)
  have present: "run_experiment e j i st = run_branches e j i (JStr t) previous_config st1"
    if "map_of (experiment_configs st ! i) ''type'' = Some (JStr t)" "t \<noteq> ''none''" for t
    using that
    by (simp add: run_experiment_apply Let_def field_or_def with_default_def default_notice_def
        py_eq_str_def then_do_apply prev)
  show ?thesis
  proof (intro conjI impI)
    assume ty: "map_of (experiment_configs st ! i) ''type'' = Some (JStr ''eval_har'')"
    from run_branches_eval_har_missing [OF i1 missing, of e j] obtain st' where
      run: "run_branches e j i (JStr ''eval_har'') previous_config st1 = (Inl LoopContinue, st')"
      and msg: "last (trace st') = Printed ''ERROR Evaluation model does not exist''"
      and same: "\<And>k. k \<noteq> ''tag'' \<Longrightarrow>
          map_of (experiment_configs st' ! i) k = map_of (experiment_configs st1 ! i) k"
      by blast
    have step: "run_experiment e j i st = (Inl LoopContinue, st')"
      using present [OF ty] run by simp
    moreover have "map_of (experiment_configs st' ! i) ''eval_results''
        = map_of (experiment_configs st ! i) ''eval_results''"
      using same [of "''eval_results''"] keep [of "''eval_results''"] by simp
    moreover have "\<forall>rest. run_experiments e j (i # rest) st = run_experiments e j rest st'"
      using step by simp
    ultimately show "\<exists>st'. run_experiment e j i st = (Inl LoopContinue, st')
        \<and> last (trace st') = Printed ''ERROR Evaluation model does not exist''
        \<and> map_of (experiment_configs st' ! i) ''eval_results''
            = map_of (experiment_configs st ! i) ''eval_results''
        \<and> (\<forall>rest. run_experiments e j (i # rest) st = run_experiments e j rest st')"
      using msg by blast
  next
    assume a: "(map_of (experiment_configs st ! i) ''type'' = Some (JStr ''self_training'')
        \<or> map_of (experiment_configs st ! i) ''type'' = Some (JStr ''self_har''))
        \<and> ''labelled'' \<in> set (prepared_datasets st)"
    then obtain t where t: "map_of (experiment_configs st ! i) ''type'' = Some (JStr t)"
      "t = ''self_training'' \<or> t = ''self_har''" by blast
    then have "t \<noteq> ''none''" by auto
    have lab: "''labelled'' \<in> set (prepared_datasets st1)" using a pd1 by simp
    have "JStr t = JStr ''self_training'' \<or> JStr t = JStr ''self_har''" using t(2) by simp
    from run_branches_self_training_missing [OF i1 this lab missing, of e j] obtain st' where
      run: "run_branches e j i (JStr t) previous_config st1 = (Inl LoopBreak, st')"
      and msg: "last (trace st') = Printed ''ERROR No previous model for self-training''"
      by blast
    have step: "run_experiment e j i st = (Inl LoopBreak, st')"
      using present [OF t(1) \<open>t \<noteq> ''none''\<close>] run by simp
    then have "\<forall>rest. run_experiments e j (i # rest) st = (Inr (), st')" by simp
    with step msg show "\<exists>st'. run_experiment e j i st = (Inl LoopBreak, st')
        \<and> last (trace st') = Printed ''ERROR No previous model for self-training''
        \<and> (\<forall>rest. run_experiments e j (i # rest) st = (Inr (), st'))"
      by blast
  qed
qed

theorem C2_missing_previous_model_witness:
  "(\<exists>st'. run_experiment example_env 0 0
            (example_state [[(''type'', JStr ''eval_har'')], [(''type'', JStr ''self_training'')]])
          = (Inl LoopContinue, st')
        \<and> last (trace st') = Printed ''ERROR Evaluation model does not exist'')
   \<and> (\<exists>st'. run_experiment example_env 0 1
            (example_state [[(''type'', JStr ''eval_har'')], [(''type'', JStr ''self_training'')]])
          = (Inl LoopBreak, st')
        \<and> last (trace st') = Printed ''ERROR No previous model for self-training'')"
proof -
  let ?W = "example_state [[(''type'', JStr ''eval_har'')], [(''type'', JStr ''self_training'')]]"
  have i0: "0 < length (experiment_configs ?W)" and i1: "1 < length (experiment_configs ?W)"
    by (simp_all add: example_state_def)
  have p0: "resolve_previous_config example_env 0 ?W
      = (Inr None, snd (resolve_previous_config example_env 0 ?W))"
    by (simp add: resolve_previous_config_apply Let_def example_state_def field_or_def
        py_eq_zero_def)
  have p1: "resolve_previous_config example_env 1 ?W
      = (Inr None, snd (resolve_previous_config example_env 1 ?W))"
    by (simp add: resolve_previous_config_apply Let_def example_state_def field_or_def
        py_eq_zero_def)
  have t0: "map_of (experiment_configs ?W ! 0) ''type'' = Some (JStr ''eval_har'')"
    and t1: "map_of (experiment_configs ?W ! 1) ''type'' = Some (JStr ''self_training'')"
    and lab: "''labelled'' \<in> set (prepared_datasets ?W)"
    by (simp_all add: example_state_def)
  show ?thesis
    using C2_missing_previous_model [OF i0 p0, of 0] C2_missing_previous_model [OF i1 p1, of 0]
      t0 t1 lab
    by blast
qed
subsection \<open>The properties of the models on the example models\<close>

lemma input_shape_of_example_core: "input_shape_of example_core = Inr [52, 3]"
  by (simp add: example_core_def create_1d_conv_core_model_def keras_Model_def input_shape_of_def)



lemma attach_on_example_core:
  "attach_full_har_classification_head creation_order example_core 4 1024 ''HAR'' = Inr example_har"
  "attach_linear_classification_head creation_order example_core 4 ''Linear'' = Inr example_linear"
  "attach_multitask_transform_head creation_order example_core [''noised'', ''scaled''] True
     (Some 4) 1024 ''StudentPreTrain'' = Inr example_multitask"
  by (simp_all add: attach_full_har_classification_head_def attach_linear_classification_head_def
      attach_multitask_transform_head_def input_shape_of_example_core bind_err_def
      example_har_def example_linear_def example_multitask_def eval_nat_numeral)

lemma example_models_well_listed:
  "well_listed example_har" "well_listed example_linear" "well_listed example_multitask"
  by (simp_all add: well_listed_def example_har_def example_linear_def example_multitask_def
      keras_Model_def dataflow_order_def creation_order_def precedes_def upt_rec)

theorem C9_core_model_round_trip_witness:
  "attach_full_har_classification_head creation_order example_core 4 1024 ''HAR'' = Inr example_har
   \<and> well_listed example_har \<and> extract_core_model example_har = Inr example_core
   \<and> attach_linear_classification_head creation_order example_core 4 ''Linear'' = Inr example_linear
   \<and> well_listed example_linear \<and> extract_core_model example_linear = Inr example_core
   \<and> attach_multitask_transform_head creation_order example_core [''noised'', ''scaled''] True
       (Some 4) 1024 ''StudentPreTrain'' = Inr example_multitask
   \<and> well_listed example_multitask \<and> extract_core_model example_multitask = Inr example_core"
  using C9_core_model_round_trip [where lo = creation_order and core = example_core
        and n_out = 4 and num_units = 1024 and name = "''HAR''"]
    C9_core_model_round_trip [where lo = creation_order and core = example_core
        and n_out = 4 and name = "''Linear''"]
    C9_core_model_round_trip [where lo = creation_order and core = example_core
        and tasks = "[''noised'', ''scaled'']" and with_har_head = True and har_shape = "Some 4"
        and num_units_har = 1024 and name = "''StudentPreTrain''"]
    attach_on_example_core example_models_well_listed
  by simp



subsection \<open>What every piece of the script may do\<close>

lemma observes_refl: "admits e j P Q \<Longrightarrow> observes P Q st st"
  by (simp add: observes_def admits_def)

lemma observes_trans:
  assumes "admits e j P Q" "observes P Q a b" "observes P Q b c"
  shows "observes P Q a c"
proof -
  from assms(2,3) obtain as bs where
    "trace b = trace a @ as" "list_all P as" "trace c = trace b @ bs" "list_all P bs"
    by (auto simp: observes_def)
  then have "trace c = trace a @ (as @ bs) \<and> list_all P (as @ bs)" by simp
  moreover have "Q (y_true a, y_pred a) (y_true c, y_pred c)"
    using assms by (auto simp: observes_def admits_def)
  ultimately show ?thesis unfolding observes_def by blast
qed

lemma stepwiseI: "(\<And>st. R st (snd (m st))) \<Longrightarrow> stepwise R m"
  by (simp add: stepwise_def)

lemma stepwiseD: "stepwise R m \<Longrightarrow> R st (snd (m st))"
  by (simp add: stepwise_def)

lemma stepwise_pure:
  assumes "admits e j P Q"
  shows "stepwise (observes P Q) (ret x)"
    and "stepwise (observes P Q) (stop s)"
    and "stepwise (observes P Q) (lift r)"
    and "stepwise (observes P Q) (reading f)"
  using assms by (cases r; simp add: stepwise_def observes_refl)+

lemma stepwise_then_do:
  assumes "admits e j P Q" "stepwise (observes P Q) m" "\<And>x. stepwise (observes P Q) (f x)"
  shows "stepwise (observes P Q) (then_do m f)"
proof (rule stepwiseI)
  fix st
  obtain r st' where m: "m st = (r, st')" by (cases "m st")
  have first: "observes P Q st st'" using stepwiseD [OF assms(2), of st] m by simp
  show "observes P Q st (snd (then_do m f st))"
  proof (cases r)
    case (Inl s)
    then show ?thesis using m first by (simp add: then_do_apply)
  next
    case (Inr x)
    have "observes P Q st' (snd (f x st'))" using stepwiseD [OF assms(3)] .
    with first have "observes P Q st (snd (f x st'))" by (rule observes_trans [OF assms(1)])
    then show ?thesis using m Inr by (simp add: then_do_apply)
  qed
qed

lemma stepwise_modify:
  assumes "admits e j P Q"
    and "\<And>st. trace (g st) = trace st \<and> y_true (g st) = y_true st \<and> y_pred (g st) = y_pred st"
  shows "stepwise (observes P Q) (modify g)"
  using assms by (auto simp: stepwise_def observes_def admits_def)

lemma stepwise_emit:
  assumes "admits e j P Q" "list_all P as"
  shows "stepwise (observes P Q) (emit as)"
  using assms by (auto simp: stepwise_def observes_def admits_def)

lemma stepwise_when_do:
  assumes "admits e j P Q" "b \<Longrightarrow> stepwise (observes P Q) m"
  shows "stepwise (observes P Q) (when_do b m)"
  using assms by (cases b) (simp_all add: stepwise_pure(1) when_do_def)

lemma stepwise_if:
  assumes "b \<Longrightarrow> stepwise R m" "\<not> b \<Longrightarrow> stepwise R n"
  shows "stepwise R (if b then m else n)"
  using assms by simp

lemma stepwise_case_option:
  assumes "x = None \<Longrightarrow> stepwise R m" "\<And>y. x = Some y \<Longrightarrow> stepwise R (f y)"
  shows "stepwise R (case x of None \<Rightarrow> m | Some y \<Rightarrow> f y)"
  using assms by (cases x) simp_all

lemma stepwise_case_prod:
  assumes "\<And>a b. x = (a, b) \<Longrightarrow> stepwise R (f a b)"
  shows "stepwise R (case x of (a, b) \<Rightarrow> f a b)"
  using assms by (cases x) simp_all

lemma admits_actions:
  assumes "admits e j P Q"
  shows "P (Printed s)" "P (Info k v)" "P PrepareUnlabelled" "P (DatasetWrite k)"
    "P (Predict i m)" "P (LabelCsv i)"
  using assms by (simp_all add: admits_def)

lemma config_value_apply:
  "config_value e p entry set_value st
     = (case get_config_default_value_if_none (clock e) (experiment_configs st ! p) entry set_value of
          Inl x \<Rightarrow> (Inl (Raised x), st)
        | Inr (v, cfg', out) \<Rightarrow>
            (Inr v, st\<lparr>experiment_configs := (experiment_configs st)[p := cfg'],
                       trace := trace st @ out\<rparr>))"
  by (simp add: config_value_def then_do_apply split: sum.splits)

lemma stepwise_config_value:
  assumes "admits e j P Q"
  shows "stepwise (observes P Q) (config_value e' p entry set_value)"
proof (rule stepwiseI)
  fix st
  have out: "list_all P out"
    if "get_config_default_value_if_none (clock e') cfg entry set_value = Inr (v, cfg', out)"
    for cfg v cfg' out
    using that admits_actions(2) [OF assms]
    by (auto simp: get_config_default_value_if_none_def split: option.splits if_splits)
  show "observes P Q st (snd (config_value e' p entry set_value st))"
  proof (cases "get_config_default_value_if_none (clock e') (experiment_configs st ! p) entry set_value")
    case (Inl x)
    then show ?thesis using observes_refl [OF assms] by (simp add: config_value_apply)
  next
    case (Inr r)
    obtain v cfg' outp where r: "r = (v, cfg', outp)" by (cases r)
    have "list_all P outp" using out Inr r by blast
    then show ?thesis
      using Inr r assms by (auto simp: config_value_apply observes_def admits_def)
  qed
qed


lemmas stepwise_rules =
  stepwise_then_do stepwise_pure stepwise_modify stepwise_emit stepwise_when_do
  stepwise_config_value

lemma stepwise_config_set:
  assumes A: "admits e j P Q"
  shows "stepwise (observes P Q) (config_set p entry v)"
  unfolding config_set_def by (intro stepwise_modify [OF A]) simp

lemma stepwise_config_get:
  assumes A: "admits e j P Q"
  shows "stepwise (observes P Q) (config_get p entry)"
  unfolding config_get_def by (intro stepwise_rules [OF A])

lemma stepwise_resolve_previous_config:
  assumes A: "admits e j P Q"
  shows "stepwise (observes P Q) (resolve_previous_config e i)"
  unfolding resolve_previous_config_def
  by (intro stepwise_rules [OF A] stepwise_if stepwise_config_get [OF A])

lemma stepwise_usable_previous:
  assumes A: "admits e j P Q"
  shows "stepwise (observes P Q) (usable_previous e previous_config)"
  unfolding usable_previous_def
  by (intro stepwise_rules [OF A] stepwise_case_option)

lemma stepwise_load_model:
  assumes A: "admits e j P Q"
  shows "stepwise (observes P Q) (load_model path)"
  unfolding load_model_def by (intro stepwise_rules [OF A])

lemma stepwise_load_previous_model:
  assumes A: "admits e j P Q"
  shows "stepwise (observes P Q) (load_previous_model p)"
  unfolding load_previous_model_def
  by (intro stepwise_rules [OF A] stepwise_config_get [OF A] stepwise_load_model [OF A])

lemma stepwise_get_optimizer:
  assumes A: "admits e j P Q"
  shows "stepwise (observes P Q) get_optimizer"
  unfolding get_optimizer_def
  by (intro stepwise_rules [OF A] stepwise_case_option)

lemma stepwise_dataset_write:
  assumes A: "admits e j P Q"
  shows "stepwise (observes P Q) (dataset_write k)"
  unfolding dataset_write_def
  by (intro stepwise_rules [OF A]) (simp_all add: admits_actions [OF A])

lemma stepwise_load_unlabelled_dataset:
  assumes A: "admits e j P Q"
  shows "stepwise (observes P Q) (load_unlabelled_dataset e)"
  unfolding load_unlabelled_dataset_def
  by (intro stepwise_rules [OF A] stepwise_if stepwise_dataset_write [OF A])
     (simp_all add: admits_actions [OF A])

lemma stepwise_ensure_unlabelled:
  assumes A: "admits e j P Q"
  shows "stepwise (observes P Q) (ensure_unlabelled e)"
  unfolding ensure_unlabelled_def
  by (intro stepwise_rules [OF A] stepwise_if stepwise_load_unlabelled_dataset [OF A])
     (simp_all add: admits_actions [OF A])

lemma stepwise_require_dataset:
  assumes A: "admits e j P Q"
  shows "stepwise (observes P Q) (require_dataset k)"
  unfolding require_dataset_def
  by (intro stepwise_rules [OF A] stepwise_if)

lemma stepwise_training_setup:
  assumes A: "admits e j P Q"
  shows "stepwise (observes P Q) (training_setup e i)"
  unfolding training_setup_def
  by (intro stepwise_rules [OF A] stepwise_if) simp_all

lemma stepwise_train:
  assumes A: "admits e j P Q" and T: "P (TrainModel i full_model schedule)"
  shows "stepwise (observes P Q) (train e j i full_model schedule model_type)"
  unfolding train_def
  by (intro stepwise_rules [OF A] stepwise_config_set [OF A]) (simp_all add: T)

lemma stepwise_eval_har_branch:
  assumes A: "admits e j P Q"
  shows "stepwise (observes P Q) (eval_har_branch e j i previous_config tag)"
  unfolding eval_har_branch_def
  by (intro stepwise_rules [OF A] stepwise_if stepwise_case_option stepwise_usable_previous [OF A]
        stepwise_load_previous_model [OF A] stepwise_get_optimizer [OF A]
        stepwise_config_set [OF A])
     (simp_all add: admits_actions [OF A])

lemma stepwise_transform_train_branch:
  assumes A: "admits e j P Q"
    and T: "\<And>m. P (TrainModel i m (training_rate_schedule_transform initial_learning_rate))"
  shows "stepwise (observes P Q) (transform_train_branch e j i previous_config initial_learning_rate)"
  unfolding transform_train_branch_def
  by (intro stepwise_rules [OF A] stepwise_case_option stepwise_usable_previous [OF A]
        stepwise_load_previous_model [OF A] stepwise_get_optimizer [OF A]
        stepwise_ensure_unlabelled [OF A] stepwise_require_dataset [OF A]
        stepwise_train [OF A] T)

lemma stepwise_har_source_model:
  assumes A: "admits e j P Q"
  shows "stepwise (observes P Q) (har_source_model e experiment_type previous_config tag)"
  unfolding har_source_model_def
  by (intro stepwise_rules [OF A] stepwise_if stepwise_case_option stepwise_usable_previous [OF A]
        stepwise_load_previous_model [OF A] stepwise_get_optimizer [OF A]
        stepwise_config_get [OF A])

lemma stepwise_freeze_and_attach:
  assumes A: "admits e j P Q"
  shows "stepwise (observes P Q) (freeze_and_attach e experiment_type is_core_model m)"
  unfolding freeze_and_attach_def
  by (intro stepwise_rules [OF A] stepwise_if stepwise_get_optimizer [OF A])

lemma stepwise_har_train_branch:
  assumes A: "admits e j P Q"
    and T: "\<And>m. P (TrainModel i m (training_rate_schedule_har initial_learning_rate))"
  shows "stepwise (observes P Q)
           (har_train_branch e j i experiment_type previous_config tag initial_learning_rate)"
  unfolding har_train_branch_def
  by (intro stepwise_rules [OF A] stepwise_case_prod stepwise_har_source_model [OF A]
        stepwise_freeze_and_attach [OF A] stepwise_train [OF A] T)

lemma stepwise_self_training_branch:
  assumes A: "admits e j P Q"
    and T: "\<And>m. P (TrainModel i m training_rate_schedule_self)"
  shows "stepwise (observes P Q) (self_training_branch e j i experiment_type previous_config)"
  unfolding self_training_branch_def
  by (intro stepwise_rules [OF A] stepwise_if stepwise_case_option stepwise_usable_previous [OF A]
        stepwise_load_previous_model [OF A] stepwise_get_optimizer [OF A]
        stepwise_ensure_unlabelled [OF A] stepwise_require_dataset [OF A]
        stepwise_train [OF A] T)
     (simp_all add: admits_actions [OF A])

lemma stepwise_pooling:
  assumes A: "admits e j P Q" and i: "i = 2 \<or> i = 3"
  shows "stepwise (observes P Q)
     (modify (\<lambda>st. st\<lparr>y_true := (y_true st)[i - 2 := y_true st ! (i - 2) @ test_labels e j],
                      y_pred := (y_pred st)[i - 2 := y_pred st ! (i - 2) @ predicted_labels e j i]\<rparr>))"
  using A i by (auto simp: stepwise_def observes_def admits_def)

lemma stepwise_evaluate_on_unlabelled:
  assumes A: "admits e j P Q" and i: "i = 2 \<or> i = 3"
  shows "stepwise (observes P Q) (evaluate_on_unlabelled e j i best_har_model)"
  unfolding evaluate_on_unlabelled_def
  by (intro stepwise_then_do [OF A] stepwise_pure [OF A] stepwise_emit [OF A]
        stepwise_load_unlabelled_dataset [OF A] stepwise_pooling [OF A i]
        stepwise_modify [OF A])
     (simp_all add: admits_actions [OF A])

lemma stepwise_eval_flag_branch:
  assumes A: "admits e j P Q"
  shows "stepwise (observes P Q) (eval_flag_branch e j i tag)"
  unfolding eval_flag_branch_def
  by (intro stepwise_rules [OF A] stepwise_if stepwise_get_optimizer [OF A]
        stepwise_config_get [OF A] stepwise_load_model [OF A] stepwise_config_set [OF A]
        stepwise_evaluate_on_unlabelled [OF A])
     (simp_all add: admits_actions [OF A])

lemma stepwise_run_branches:
  assumes A: "admits e j P Q" and T: "\<And>a. P a"
  shows "stepwise (observes P Q) (run_branches e j i experiment_type previous_config)"
  unfolding run_branches_def
  by (intro stepwise_rules [OF A] stepwise_if stepwise_eval_har_branch [OF A]
        stepwise_training_setup [OF A] stepwise_transform_train_branch [OF A]
        stepwise_har_train_branch [OF A] stepwise_self_training_branch [OF A]
        stepwise_eval_flag_branch [OF A] T)

lemma stepwise_run_experiment:
  assumes A: "admits e j P Q" and T: "\<And>a. P a"
  shows "stepwise (observes P Q) (run_experiment e j i)"
  unfolding run_experiment_def
  by (intro stepwise_rules [OF A] stepwise_if stepwise_resolve_previous_config [OF A]
        stepwise_run_branches [OF A] T)

lemma run_experiments_observes:
  assumes A: "admits e j P Q" and T: "\<And>a. P a"
  shows "observes P Q st (snd (run_experiments e j rest st))"
proof (induction rest arbitrary: st)
  case Nil
  show ?case using observes_refl [OF A] by simp
next
  case (Cons i rest)
  obtain r st' where step: "run_experiment e j i st = (r, st')" by (cases "run_experiment e j i st")
  have "stepwise (observes P Q) (run_experiment e j i)" by (rule stepwise_run_experiment [OF A T])
  from stepwiseD [OF this] have first: "observes P Q st st'"
    using step by (metis snd_conv)
  have later: "observes P Q st (snd (run_experiments e j rest st'))"
    using observes_trans [OF A first Cons.IH [of st']] .
  show ?case
  proof (cases r)
    case (Inl s)
    then show ?thesis using step first later by (cases s) simp_all
  next
    case (Inr u)
    then show ?thesis using step later by simp
  qed
qed

lemma admits_any: "admits e j (\<lambda>a. True) any_pooled"
  by (simp add: admits_def any_pooled_def)

lemma run_experiments_keeps_trace:
  "\<exists>as. trace (snd (run_experiments e j rest st)) = trace st @ as"
  using run_experiments_observes [OF admits_any, where e = e and j = j and st = st and rest = rest]
  by (auto simp: observes_def)

subsection \<open>Learning-rate schedules\<close>

lemma admits_uses_schedule: "admits e j (uses_schedule S) any_pooled"
  by (simp add: admits_def uses_schedule_def any_pooled_def)

lemma halving: "(1 / 2 :: real) powi ((epoch + 15) div 15) = (1 / 2) powi (epoch div 15) / 2"
proof -
  have "(epoch + 15) div 15 = epoch div 15 + 1" by simp
  then show ?thesis by (simp add: power_int_add_1)
qed

lemma grows:
  assumes "stepwise (observes P Q) m"
  shows "\<exists>as. trace (snd (m st)) = trace st @ as"
  using stepwiseD [OF assms, of st] by (auto simp: observes_def)

lemma reaches_then_do_last:
  assumes "stepwise (observes P Q) m" "\<And>x. reaches A (f x)"
  shows "reaches A (then_do m f)"
  unfolding reaches_def
proof (intro allI impI)
  fix st y st'
  assume run: "then_do m f st = (Inr y, st')"
  obtain r st1 where m: "m st = (r, st1)" by (cases "m st")
  from run m obtain x where r: "r = Inr x" and f: "f x st1 = (Inr y, st')"
    by (cases r) (auto simp: then_do_apply)
  from grows [OF assms(1), of st] m obtain as1 where as1: "trace st1 = trace st @ as1" by auto
  have "reaches A (f x)" by (rule assms(2))
  then have "\<exists>as. trace st' = trace st1 @ as \<and> list_ex A as"
    using f unfolding reaches_def by blast
  then obtain as2 where "trace st' = trace st1 @ as2" "list_ex A as2" by blast
  then show "\<exists>as. trace st' = trace st @ as \<and> list_ex A as"
    using as1 by (intro exI [of _ "as1 @ as2"]) simp
qed

lemma reaches_case_prod:
  assumes "\<And>a b. reaches A (f a b)"
  shows "reaches A (case_prod f x)"
  using assms by (cases x) simp

lemma reaches_train: "reaches (trains_with i S) (train e j i full_model S model_type)"
  by (simp add: reaches_def train_def config_set_def then_do_apply trains_with_def)

lemma reaches_transform_train_branch:
  "reaches (trains_with i (training_rate_schedule_transform lr))
     (transform_train_branch e j i previous_config lr)"
  unfolding transform_train_branch_def
  by (intro reaches_then_do_last [where P = "\<lambda>a. True" and Q = any_pooled] reaches_train
        stepwise_rules [OF admits_any] stepwise_case_option stepwise_usable_previous [OF admits_any]
        stepwise_load_previous_model [OF admits_any] stepwise_get_optimizer [OF admits_any]
        stepwise_ensure_unlabelled [OF admits_any] stepwise_require_dataset [OF admits_any])

lemma reaches_har_train_branch:
  "reaches (trains_with i (training_rate_schedule_har lr))
     (har_train_branch e j i experiment_type previous_config tag lr)"
  unfolding har_train_branch_def
  by (intro reaches_then_do_last [where P = "\<lambda>a. True" and Q = any_pooled] reaches_case_prod
        reaches_train stepwise_har_source_model [OF admits_any]
        stepwise_freeze_and_attach [OF admits_any])

lemma input_shape_of_fresh_core:
  "input_shape_of (create_1d_conv_core_model lo shape name) = Inr shape"
  by (simp add: input_shape_of_def create_1d_conv_core_model_def keras_Model_def)

lemma transform_train_branch_fresh:
  assumes "''labelled'' \<in> set (prepared_datasets st)" "''unlabelled'' \<notin> set (prepared_datasets st)"
    and "optimizer st = Some opt"
  shows "\<exists>st' as m. transform_train_branch e j i None lr st = (Inr (), st')
      \<and> trace st' = trace st @ as @ [TrainModel i m (training_rate_schedule_transform lr)]"
  using assms
  by (cases "max_unlabelled_windows e")
     (simp_all add: transform_train_branch_def then_do_apply usable_previous_apply
        ensure_unlabelled_def load_unlabelled_dataset_def dataset_write_def insert_key_def
        get_optimizer_def attach_multitask_transform_head_def bind_err_def
        require_dataset_def train_def config_set_def input_shape_of_fresh_core)

lemma input_shape_of_frozen:
  assumes "set_freeze_layers m idx = Inr f" "input_shape_of m = Inr shape"
  shows "input_shape_of f = Inr shape"
proof -
  from assms(2) obtain ns ins outs ord where k: "layer_kind m = Functional ns ins outs ord"
    by (cases "layer_kind m") (simp_all add: input_shape_of_def)
  from assms(2) k obtain i where i: "ins = [i]" "i < length ns"
    "layer_kind (fst (ns ! i)) = InputLayer shape"
    by (auto simp: input_shape_of_def split: list.splits if_splits layer_kind.splits)
  have kind: "layer_kind (fst (foldl (set_trainable b) xs ks ! i)) = layer_kind (fst (xs ! i))"
    if "i < length xs" for b xs ks
    using that by (simp add: nth_foldl_set_trainable with_trainable_def)
  show ?thesis
    using assms(1) k i
    by (cases idx) (auto simp: set_freeze_layers_def input_shape_of_def kind)
qed

lemma set_freeze_layers_fresh_core:
  "\<exists>f. set_freeze_layers (create_1d_conv_core_model lo shape name) idx = Inr f"
  by (cases idx) (simp_all add: set_freeze_layers_def create_1d_conv_core_model_def keras_Model_def)

lemma har_train_branch_fresh:
  assumes "optimizer st = Some opt"
    and "experiment_type = JStr ''har_full_train'' \<or> experiment_type = JStr ''har_full_fine_tune''
         \<or> experiment_type = JStr ''har_linear_train''"
  shows "\<exists>st' m. har_train_branch e j i experiment_type None tag lr st = (Inr (), st')
      \<and> trace st' = trace st @ [TrainModel i m (training_rate_schedule_har lr)]"
proof -
  let ?core = "create_1d_conv_core_model (keras_layers e) (input_shape e) ''base_model''"
  have shape: "input_shape_of f = Inr (input_shape e)" if "set_freeze_layers ?core idx = Inr f" for idx f
    using that by (rule input_shape_of_frozen) (rule input_shape_of_fresh_core)
  obtain f1 f2 f3 where f: "set_freeze_layers ?core None = Inr f1"
    "set_freeze_layers ?core (Some 0) = Inr f2" "set_freeze_layers ?core (Some 5) = Inr f3"
    using set_freeze_layers_fresh_core by metis
  show ?thesis
    using assms f shape [OF f(1)] shape [OF f(2)] shape [OF f(3)]
    by (auto simp: har_train_branch_def har_source_model_def freeze_and_attach_def then_do_apply
        usable_previous_apply py_eq_str_def get_optimizer_def
        attach_linear_classification_head_def attach_full_har_classification_head_def
        bind_err_def train_def config_set_def)
qed

lemma then_do_ret: "then_do (ret x) f = f x"
  by (rule ext) (simp add: then_do_apply)

lemma run_branches_transform_train:
  "run_branches e j i (JStr ''transform_train'') previous_config
     = then_do (config_value e i ''tag'' True) (\<lambda>tag_value.
       then_do (training_setup e i) (\<lambda>initial_learning_rate.
       then_do (transform_train_branch e j i previous_config initial_learning_rate) (\<lambda>_.
       eval_flag_branch e j i (clock e @ ''_'' @ file_tag e @ ''_'' @ py_str e tag_value))))"
  by (simp add: run_branches_def py_eq_str_def when_do_def then_do_ret)

lemma run_branches_har:
  assumes "t = ''har_full_train'' \<or> t = ''har_full_fine_tune'' \<or> t = ''har_linear_train''"
  shows "run_branches e j i (JStr t) previous_config
     = then_do (config_value e i ''tag'' True) (\<lambda>tag_value.
       then_do (training_setup e i) (\<lambda>initial_learning_rate.
       then_do (har_train_branch e j i (JStr t) previous_config
                  (clock e @ ''_'' @ file_tag e @ ''_'' @ py_str e tag_value)
                  initial_learning_rate) (\<lambda>_.
       eval_flag_branch e j i (clock e @ ''_'' @ file_tag e @ ''_'' @ py_str e tag_value))))"
  using assms
  by (auto simp: run_branches_def py_eq_str_def when_do_def then_do_ret)

lemma reaches_then_do_first:
  assumes "reaches A m" "\<And>x. stepwise (observes P Q) (f x)"
  shows "reaches A (then_do m f)"
  unfolding reaches_def
proof (intro allI impI)
  fix st y st'
  assume run: "then_do m f st = (Inr y, st')"
  obtain r st1 where m: "m st = (r, st1)" by (cases "m st")
  from run m obtain x where r: "r = Inr x" and f: "f x st1 = (Inr y, st')"
    by (cases r) (auto simp: then_do_apply)
  from assms(1) m r obtain as1 where as1: "trace st1 = trace st @ as1" "list_ex A as1"
    unfolding reaches_def by blast
  from grows [OF assms(2), of x st1] f obtain as2 where "trace st' = trace st1 @ as2" by auto
  then show "\<exists>as. trace st' = trace st @ as \<and> list_ex A as"
    using as1 by (intro exI [of _ "as1 @ as2"]) simp
qed

lemma setup_then_branch:
  assumes i: "i < length (experiment_configs st)"
    and body: "run_branches e j i ty pc
       = then_do (config_value e i ''tag'' True) (\<lambda>tag_value.
         then_do (training_setup e i) (\<lambda>lr.
         then_do (B tag_value lr) (\<lambda>_. eval_flag_branch e j i (T tag_value))))"
    and safe: "\<And>tag_value lr. stepwise (observes (uses_schedule (S lr)) any_pooled) (B tag_value lr)"
    and live: "\<And>tag_value lr. reaches (trains_with i (S lr)) (B tag_value lr)"
    and lr0: "lr0 = field_or (experiment_configs st ! i) ''initial_learning_rate'' (JFloat 0.0003)"
  shows "observes (uses_schedule (S lr0)) any_pooled st (snd (run_branches e j i ty pc st))"
    and "fst (run_branches e j i ty pc st) = Inr u \<Longrightarrow>
           \<exists>as. trace (snd (run_branches e j i ty pc st)) = trace st @ as
                \<and> list_ex (trains_with i (S lr0)) as"
proof -
  let ?P = "uses_schedule (S lr0)"
  note A = admits_uses_schedule [of e j "S lr0"]
  define tv where "tv = field_or (experiment_configs st ! i) ''tag'' (JStr (clock e))"
  define st1 where "st1 = st\<lparr>experiment_configs :=
      (experiment_configs st)[i := with_default ''tag'' (JStr (clock e)) (experiment_configs st ! i)],
      trace := trace st @ default_notice ''tag'' (JStr (clock e)) (experiment_configs st ! i)\<rparr>"
  have tag: "config_value e i ''tag'' True st = (Inr tv, st1)"
    by (simp add: config_value_True [OF default_value_of_simps(2)] tv_def st1_def)
  have i1: "i < length (experiment_configs st1)" using i by (simp add: st1_def)
  have lr1: "field_or (experiment_configs st1 ! i) ''initial_learning_rate'' (JFloat 0.0003) = lr0"
    using i by (simp add: st1_def lr0 field_or_with_default)
  from training_setup_apply [OF i1, of e] lr1 obtain st2
    where init: "training_setup e i st1 = (Inr lr0, st2)" by auto
  let ?rest = "then_do (B tv lr0) (\<lambda>_. eval_flag_branch e j i (T tv))"
  have run: "run_branches e j i ty pc st = ?rest st2"
    by (simp add: body then_do_apply tag init)
  have "stepwise (observes ?P any_pooled) (config_value e i ''tag'' True)"
    by (rule stepwise_config_value [OF A])
  from stepwiseD [OF this, of st] have o1: "observes ?P any_pooled st st1"
    using tag by simp
  have "stepwise (observes ?P any_pooled) (training_setup e i)"
    by (rule stepwise_training_setup [OF A])
  from stepwiseD [OF this, of st1] have o2: "observes ?P any_pooled st1 st2"
    using init by simp
  have "stepwise (observes ?P any_pooled) ?rest"
    by (intro stepwise_then_do [OF A] safe stepwise_eval_flag_branch [OF A])
  from stepwiseD [OF this, of st2] have o3: "observes ?P any_pooled st2 (snd (?rest st2))" .
  show "observes ?P any_pooled st (snd (run_branches e j i ty pc st))"
    using observes_trans [OF A o1 observes_trans [OF A o2 o3]] run by simp
  assume "fst (run_branches e j i ty pc st) = Inr u"
  then have ok: "?rest st2 = (Inr u, snd (?rest st2))" using run by (metis prod.collapse)
  have "reaches (trains_with i (S lr0)) ?rest"
    by (intro reaches_then_do_first [where P = ?P and Q = any_pooled] live
          stepwise_eval_flag_branch [OF A])
  with ok obtain as3 where as3: "trace (snd (?rest st2)) = trace st2 @ as3"
    "list_ex (trains_with i (S lr0)) as3"
    unfolding reaches_def by blast
  from o1 o2 obtain as1 as2 where "trace st1 = trace st @ as1" "trace st2 = trace st1 @ as2"
    by (auto simp: observes_def)
  then show "\<exists>as. trace (snd (run_branches e j i ty pc st)) = trace st @ as
      \<and> list_ex (trains_with i (S lr0)) as"
    using as3 run by (intro exI [of _ "as1 @ as2 @ as3"]) simp
qed

text \<open>
  Claim C6. The schedule of a \<^verbatim>\<open>transform_train\<close> experiment gives, at epoch \<open>e\<close>, the
  initial learning rate times 0.5 to the power \<open>e div 15\<close>, so the rate is halved every 15
  epochs; the schedule of the three \<^verbatim>\<open>har_*\<close> experiments gives the initial learning rate
  at every epoch. Every training call of the \<^verbatim>\<open>transform_train\<close> branch is made with the
  first schedule and every training call of the \<^verbatim>\<open>har_*\<close> branch with the second, and
  the initial learning rate passed to the branches is the field \<^verbatim>\<open>initial_learning_rate\<close>
  of the experiment, or 0.0003. Each branch does train: a run of the branch that ends
  normally has made a training call with its schedule, and a branch that starts from a new
  core model, with the optimizer set (and, for \<^verbatim>\<open>transform_train\<close>, in a fold whose
  unlabelled data are not loaded yet), ends normally with the training call as its last
  action. The same holds of the whole body of an experiment of these types, from the
  resolution of its tag on: every training call in it has the schedule for the initial
  learning rate of the experiment, and when the body ends normally it has made one.
  The rates are computed in the reals.
\<close>

theorem C6_learning_rate_schedules:
  "(\<forall>r. py_number lr = Some r \<longrightarrow>
        training_rate_schedule_transform lr epoch = Inr (JFloat (r * (1 / 2) powi (epoch div 15)))
      \<and> training_rate_schedule_transform lr (epoch + 15)
          = Inr (JFloat (r * (1 / 2) powi (epoch div 15) / 2)))
   \<and> training_rate_schedule_har lr epoch = Inr lr
   \<and> stepwise (observes (uses_schedule (training_rate_schedule_transform lr)) any_pooled)
        (transform_train_branch e j i previous_config lr)
   \<and> stepwise (observes (uses_schedule (training_rate_schedule_har lr)) any_pooled)
        (har_train_branch e j i experiment_type previous_config tag lr)
   \<and> (i < length (experiment_configs st) \<longrightarrow>
        fst (training_setup e i st)
          = Inr (field_or (experiment_configs st ! i) ''initial_learning_rate'' (JFloat 0.0003)))
   \<and> reaches (trains_with i (training_rate_schedule_transform lr))
        (transform_train_branch e j i previous_config lr)
   \<and> reaches (trains_with i (training_rate_schedule_har lr))
        (har_train_branch e j i experiment_type previous_config tag lr)
   \<and> (''labelled'' \<in> set (prepared_datasets st) \<longrightarrow>
      ''unlabelled'' \<notin> set (prepared_datasets st) \<longrightarrow> optimizer st \<noteq> None \<longrightarrow>
        (\<exists>st' as m. transform_train_branch e j i None lr st = (Inr (), st')
           \<and> trace st' = trace st @ as @ [TrainModel i m (training_rate_schedule_transform lr)]))
   \<and> (optimizer st \<noteq> None \<longrightarrow>
      experiment_type \<in> {JStr ''har_full_train'', JStr ''har_full_fine_tune'',
                           JStr ''har_linear_train''} \<longrightarrow>
        (\<exists>st' m. har_train_branch e j i experiment_type None tag lr st = (Inr (), st')
           \<and> trace st' = trace st @ [TrainModel i m (training_rate_schedule_har lr)]))
   \<and> (i < length (experiment_configs st) \<longrightarrow>
        observes (uses_schedule (training_rate_schedule_transform
            (field_or (experiment_configs st ! i) ''initial_learning_rate'' (JFloat 0.0003))))
          any_pooled st (snd (run_branches e j i (JStr ''transform_train'') previous_config st))
      \<and> (fst (run_branches e j i (JStr ''transform_train'') previous_config st) = Inr () \<longrightarrow>
           (\<exists>as. trace (snd (run_branches e j i (JStr ''transform_train'') previous_config st))
                   = trace st @ as
               \<and> list_ex (trains_with i (training_rate_schedule_transform
                    (field_or (experiment_configs st ! i) ''initial_learning_rate''
                       (JFloat 0.0003)))) as)))
   \<and> (i < length (experiment_configs st) \<longrightarrow>
      experiment_type \<in> {JStr ''har_full_train'', JStr ''har_full_fine_tune'',
                           JStr ''har_linear_train''} \<longrightarrow>
        observes (uses_schedule (training_rate_schedule_har
            (field_or (experiment_configs st ! i) ''initial_learning_rate'' (JFloat 0.0003))))
          any_pooled st (snd (run_branches e j i experiment_type previous_config st))
      \<and> (fst (run_branches e j i experiment_type previous_config st) = Inr () \<longrightarrow>
           (\<exists>as. trace (snd (run_branches e j i experiment_type previous_config st))
                   = trace st @ as
               \<and> list_ex (trains_with i (training_rate_schedule_har
                    (field_or (experiment_configs st ! i) ''initial_learning_rate''
                       (JFloat 0.0003)))) as)))"
proof -
  have rate: "\<forall>r. py_number lr = Some r \<longrightarrow>
        training_rate_schedule_transform lr epoch = Inr (JFloat (r * (1 / 2) powi (epoch div 15)))
      \<and> training_rate_schedule_transform lr (epoch + 15)
          = Inr (JFloat (r * (1 / 2) powi (epoch div 15) / 2))"
  proof (intro allI impI conjI)
    fix r assume "py_number lr = Some r"
    then show "training_rate_schedule_transform lr epoch
        = Inr (JFloat (r * (1 / 2) powi (epoch div 15)))"
      by (simp add: training_rate_schedule_transform_def)
  next
    fix r assume "py_number lr = Some r"
    then show "training_rate_schedule_transform lr (epoch + 15)
        = Inr (JFloat (r * (1 / 2) powi (epoch div 15) / 2))"
      by (simp only: training_rate_schedule_transform_def halving) simp
  qed
  have const: "training_rate_schedule_har lr epoch = Inr lr"
    by (simp add: training_rate_schedule_har_def)
  have safe_t: "stepwise (observes (uses_schedule (training_rate_schedule_transform x)) any_pooled)
      (transform_train_branch e j i previous_config x)" for x
    by (rule stepwise_transform_train_branch [OF admits_uses_schedule])
       (simp add: uses_schedule_def)
  have safe_h: "stepwise (observes (uses_schedule (training_rate_schedule_har x)) any_pooled)
      (har_train_branch e j i ty previous_config tg x)" for x ty tg
    by (rule stepwise_har_train_branch [OF admits_uses_schedule])
       (simp add: uses_schedule_def)
  have initial: "i < length (experiment_configs st) \<longrightarrow>
        fst (training_setup e i st)
          = Inr (field_or (experiment_configs st ! i) ''initial_learning_rate'' (JFloat 0.0003))"
    using training_setup_apply [of i st e] by auto
  have fresh_t: "''labelled'' \<in> set (prepared_datasets st) \<longrightarrow>
      ''unlabelled'' \<notin> set (prepared_datasets st) \<longrightarrow> optimizer st \<noteq> None \<longrightarrow>
        (\<exists>st' as m. transform_train_branch e j i None lr st = (Inr (), st')
           \<and> trace st' = trace st @ as @ [TrainModel i m (training_rate_schedule_transform lr)])"
    using transform_train_branch_fresh [of st _ e j i lr] by auto
  have fresh_h: "optimizer st \<noteq> None \<longrightarrow>
      experiment_type \<in> {JStr ''har_full_train'', JStr ''har_full_fine_tune'',
                           JStr ''har_linear_train''} \<longrightarrow>
        (\<exists>st' m. har_train_branch e j i experiment_type None tag lr st = (Inr (), st')
           \<and> trace st' = trace st @ [TrainModel i m (training_rate_schedule_har lr)])"
    using har_train_branch_fresh [of st _ experiment_type e j i tag lr] by auto
  have body_t: "i < length (experiment_configs st) \<longrightarrow>
        observes (uses_schedule (training_rate_schedule_transform
            (field_or (experiment_configs st ! i) ''initial_learning_rate'' (JFloat 0.0003))))
          any_pooled st (snd (run_branches e j i (JStr ''transform_train'') previous_config st))
      \<and> (fst (run_branches e j i (JStr ''transform_train'') previous_config st) = Inr () \<longrightarrow>
           (\<exists>as. trace (snd (run_branches e j i (JStr ''transform_train'') previous_config st))
                   = trace st @ as
               \<and> list_ex (trains_with i (training_rate_schedule_transform
                    (field_or (experiment_configs st ! i) ''initial_learning_rate''
                       (JFloat 0.0003)))) as))"
  proof (intro impI conjI)
    assume i: "i < length (experiment_configs st)"
    note both = setup_then_branch [OF i run_branches_transform_train,
        where S = training_rate_schedule_transform, OF safe_t reaches_transform_train_branch refl]
    show "observes (uses_schedule (training_rate_schedule_transform
            (field_or (experiment_configs st ! i) ''initial_learning_rate'' (JFloat 0.0003))))
          any_pooled st (snd (run_branches e j i (JStr ''transform_train'') previous_config st))"
      by (rule both(1))
    assume "fst (run_branches e j i (JStr ''transform_train'') previous_config st) = Inr ()"
    then show "\<exists>as. trace (snd (run_branches e j i (JStr ''transform_train'') previous_config st))
                   = trace st @ as
               \<and> list_ex (trains_with i (training_rate_schedule_transform
                    (field_or (experiment_configs st ! i) ''initial_learning_rate''
                       (JFloat 0.0003)))) as"
      by (rule both(2))
  qed
  have body_h: "i < length (experiment_configs st) \<longrightarrow>
      experiment_type \<in> {JStr ''har_full_train'', JStr ''har_full_fine_tune'',
                           JStr ''har_linear_train''} \<longrightarrow>
        observes (uses_schedule (training_rate_schedule_har
            (field_or (experiment_configs st ! i) ''initial_learning_rate'' (JFloat 0.0003))))
          any_pooled st (snd (run_branches e j i experiment_type previous_config st))
      \<and> (fst (run_branches e j i experiment_type previous_config st) = Inr () \<longrightarrow>
           (\<exists>as. trace (snd (run_branches e j i experiment_type previous_config st))
                   = trace st @ as
               \<and> list_ex (trains_with i (training_rate_schedule_har
                    (field_or (experiment_configs st ! i) ''initial_learning_rate''
                       (JFloat 0.0003)))) as))"
  proof (intro impI conjI)
    assume i: "i < length (experiment_configs st)"
      and "experiment_type \<in> {JStr ''har_full_train'', JStr ''har_full_fine_tune'',
                           JStr ''har_linear_train''}"
    then obtain t where t: "experiment_type = JStr t"
      "t = ''har_full_train'' \<or> t = ''har_full_fine_tune'' \<or> t = ''har_linear_train''"
      by auto
    note both = setup_then_branch [OF i run_branches_har [OF t(2)],
        where S = training_rate_schedule_har, OF safe_h reaches_har_train_branch refl]
    show "observes (uses_schedule (training_rate_schedule_har
            (field_or (experiment_configs st ! i) ''initial_learning_rate'' (JFloat 0.0003))))
          any_pooled st (snd (run_branches e j i experiment_type previous_config st))"
      unfolding t(1) by (rule both(1))
    assume "fst (run_branches e j i experiment_type previous_config st) = Inr ()"
    then show "\<exists>as. trace (snd (run_branches e j i experiment_type previous_config st))
                   = trace st @ as
               \<and> list_ex (trains_with i (training_rate_schedule_har
                    (field_or (experiment_configs st ! i) ''initial_learning_rate''
                       (JFloat 0.0003)))) as"
      unfolding t(1) by (rule both(2))
  qed
  show ?thesis
    by (intro conjI rate const safe_t safe_h initial reaches_transform_train_branch
          reaches_har_train_branch fresh_t fresh_h body_t body_h)
qed

theorem C6_learning_rate_schedules_witness:
  "py_number (JFloat 0.0003) = Some 0.0003
   \<and> training_rate_schedule_transform (JFloat 0.0003) 0 = Inr (JFloat 0.0003)
   \<and> training_rate_schedule_transform (JFloat 0.0003) 15 = Inr (JFloat 0.00015)
   \<and> training_rate_schedule_har (JFloat 0.0003) 15 = Inr (JFloat 0.0003)
   \<and> list_ex (is_training 0)
        (trace (snd (har_train_branch example_env 0 0 (JStr ''har_full_train'') None ''tag''
           (JFloat 0.0003) example_trained_state)))
   \<and> list_all (uses_schedule (training_rate_schedule_har (JFloat 0.0003)))
        (trace (snd (har_train_branch example_env 0 0 (JStr ''har_full_train'') None ''tag''
           (JFloat 0.0003) example_trained_state)))
   \<and> (\<exists>st' as m. transform_train_branch example_env 0 0 None (JFloat 0.0003) example_trained_state
           = (Inr (), st')
        \<and> trace st' = as @ [TrainModel 0 m (training_rate_schedule_transform (JFloat 0.0003))])
   \<and> (\<exists>st' m. har_train_branch example_env 0 0 (JStr ''har_full_train'') None ''tag''
           (JFloat 0.0003) example_trained_state = (Inr (), st')
        \<and> trace st' = [TrainModel 0 m (training_rate_schedule_har (JFloat 0.0003))])
   \<and> fst (training_setup example_env 0 (example_state transform_then_evaluate_pipeline))
       = Inr (JFloat 0.0003)
   \<and> fst (run_branches example_env 0 0 (JStr ''transform_train'') None
        (example_state transform_then_evaluate_pipeline)) = Inr ()
   \<and> list_ex (trains_with 0 (training_rate_schedule_transform (JFloat 0.0003)))
        (trace (snd (run_branches example_env 0 0 (JStr ''transform_train'') None
           (example_state transform_then_evaluate_pipeline))))
   \<and> list_all (uses_schedule (training_rate_schedule_transform (JFloat 0.0003)))
        (trace (snd (run_branches example_env 0 0 (JStr ''transform_train'') None
           (example_state transform_then_evaluate_pipeline))))"
proof -
  have num: "py_number (JFloat 0.0003) = Some 0.0003" by (simp add: py_number_def)
  have trained: "list_ex (is_training 0)
      (trace (snd (har_train_branch example_env 0 0 (JStr ''har_full_train'') None ''tag''
         (JFloat 0.0003) example_trained_state)))"
    by code_simp
  have start: "trace example_trained_state = []"
    "''labelled'' \<in> set (prepared_datasets example_trained_state)"
    "''unlabelled'' \<notin> set (prepared_datasets example_trained_state)"
    "optimizer example_trained_state \<noteq> None"
    by (simp_all add: example_trained_state_def example_state_def)
  have pipeline: "trace (example_state transform_then_evaluate_pipeline) = []"
    "0 < length (experiment_configs (example_state transform_then_evaluate_pipeline))"
    "field_or (experiment_configs (example_state transform_then_evaluate_pipeline) ! 0)
       ''initial_learning_rate'' (JFloat 0.0003) = JFloat 0.0003"
    by (simp_all add: example_state_def transform_then_evaluate_pipeline_def field_or_def)
  have normal: "fst (run_branches example_env 0 0 (JStr ''transform_train'') None
      (example_state transform_then_evaluate_pipeline)) = Inr ()"
    by code_simp
  note inst = C6_learning_rate_schedules [where lr = "JFloat 0.0003" and epoch = 0
      and e = example_env and j = 0 and i = 0 and previous_config = None
      and experiment_type = "JStr ''har_full_train''" and tag = "''tag''"
      and st = example_trained_state]
  note inst' = C6_learning_rate_schedules [where lr = "JFloat 0.0003" and epoch = 0
      and e = example_env and j = 0 and i = 0 and previous_config = None
      and experiment_type = "JStr ''har_full_train''" and tag = "''tag''"
      and st = "example_state transform_then_evaluate_pipeline"]
  have "stepwise (observes (uses_schedule (training_rate_schedule_har (JFloat 0.0003))) any_pooled)
      (har_train_branch example_env 0 0 (JStr ''har_full_train'') None ''tag'' (JFloat 0.0003))"
    using inst by blast
  from stepwiseD [OF this, of example_trained_state]
  have sched: "list_all (uses_schedule (training_rate_schedule_har (JFloat 0.0003)))
      (trace (snd (har_train_branch example_env 0 0 (JStr ''har_full_train'') None ''tag''
         (JFloat 0.0003) example_trained_state)))"
    using start(1) by (auto simp: observes_def)
  have "training_rate_schedule_transform (JFloat 0.0003) 0
        = Inr (JFloat (0.0003 * (1 / 2) powi (0 div 15)))
      \<and> training_rate_schedule_transform (JFloat 0.0003) (0 + 15)
        = Inr (JFloat (0.0003 * (1 / 2) powi (0 div 15) / 2))"
    using inst num by blast
  moreover have "training_rate_schedule_har (JFloat 0.0003) 15 = Inr (JFloat 0.0003)"
    using C6_learning_rate_schedules [where lr = "JFloat 0.0003" and epoch = 15] by blast
  ultimately have rates: "training_rate_schedule_transform (JFloat 0.0003) 0 = Inr (JFloat 0.0003)
      \<and> training_rate_schedule_transform (JFloat 0.0003) 15 = Inr (JFloat 0.00015)
      \<and> training_rate_schedule_har (JFloat 0.0003) 15 = Inr (JFloat 0.0003)"
    by simp
  have "\<exists>st' as m. transform_train_branch example_env 0 0 None (JFloat 0.0003)
          example_trained_state = (Inr (), st')
        \<and> trace st' = trace example_trained_state @ as
            @ [TrainModel 0 m (training_rate_schedule_transform (JFloat 0.0003))]"
    using inst start by blast
  then have fresh_t: "\<exists>st' as m. transform_train_branch example_env 0 0 None (JFloat 0.0003)
          example_trained_state = (Inr (), st')
        \<and> trace st' = as @ [TrainModel 0 m (training_rate_schedule_transform (JFloat 0.0003))]"
    by (simp add: start(1))
  have "\<exists>st' m. har_train_branch example_env 0 0 (JStr ''har_full_train'') None ''tag''
           (JFloat 0.0003) example_trained_state = (Inr (), st')
        \<and> trace st' = trace example_trained_state
            @ [TrainModel 0 m (training_rate_schedule_har (JFloat 0.0003))]"
    using inst start by blast
  then have fresh_h: "\<exists>st' m. har_train_branch example_env 0 0 (JStr ''har_full_train'') None
           ''tag'' (JFloat 0.0003) example_trained_state = (Inr (), st')
        \<and> trace st' = [TrainModel 0 m (training_rate_schedule_har (JFloat 0.0003))]"
    by (simp add: start(1))
  have initial: "fst (training_setup example_env 0 (example_state transform_then_evaluate_pipeline))
       = Inr (JFloat 0.0003)"
    using inst' pipeline(2,3) by simp
  have body: "observes (uses_schedule (training_rate_schedule_transform (JFloat 0.0003)))
          any_pooled (example_state transform_then_evaluate_pipeline)
          (snd (run_branches example_env 0 0 (JStr ''transform_train'') None
             (example_state transform_then_evaluate_pipeline)))
      \<and> (\<exists>as. trace (snd (run_branches example_env 0 0 (JStr ''transform_train'') None
                    (example_state transform_then_evaluate_pipeline)))
                   = trace (example_state transform_then_evaluate_pipeline) @ as
               \<and> list_ex (trains_with 0 (training_rate_schedule_transform (JFloat 0.0003))) as)"
    using inst' pipeline(2,3) normal by simp
  then have made: "list_ex (trains_with 0 (training_rate_schedule_transform (JFloat 0.0003)))
        (trace (snd (run_branches example_env 0 0 (JStr ''transform_train'') None
           (example_state transform_then_evaluate_pipeline))))"
    and only: "list_all (uses_schedule (training_rate_schedule_transform (JFloat 0.0003)))
        (trace (snd (run_branches example_env 0 0 (JStr ''transform_train'') None
           (example_state transform_then_evaluate_pipeline))))"
    by (auto simp: observes_def pipeline(1))
  show ?thesis
    using num rates trained sched fresh_t fresh_h initial normal made only by blast
qed
subsection \<open>Configuration errors\<close>

lemma run_experiments_after_first:
  "\<exists>as. trace (snd (run_experiments e j (i # rest) st))
         = trace (snd (run_experiment e j i st)) @ as"
proof -
  obtain r st' where step: "run_experiment e j i st = (r, st')"
    by (cases "run_experiment e j i st")
  show ?thesis
  proof (cases r)
    case (Inl s)
    then show ?thesis
      using step run_experiments_keeps_trace [of e j rest st'] by (cases s) simp_all
  next
    case (Inr u)
    then show ?thesis using step run_experiments_keeps_trace [of e j rest st'] by simp
  qed
qed

text \<open>
  The claim as stated fails: in a list of two experiments whose first one has an offset to
  the experiment after it and a field that is no configuration field, the first experiment
  is trained and the run ends without an error.
\<close>

theorem C8_forward_reference_accepted:
  "(case run_experiments example_env 0 [0..<2] (example_state forward_reference_pipeline) of
      (r, st) \<Rightarrow> r = Inr () \<and> list_ex (is_training 0) (trace st))"
  by code_simp

lemma run_experiment_none:
  assumes "py_eq_str (field_or (experiment_configs st ! i) ''type'' (JStr ''none'')) ''none''"
  shows "fst (run_experiment e j i st) = Inl LoopContinue"
  using assms by (simp add: run_experiment_apply Let_def)

lemma run_experiment_past_the_end:
  assumes i: "i < length (experiment_configs st)"
    and ty: "\<not> py_eq_str (field_or (experiment_configs st ! i) ''type'' (JStr ''none'')) ''none''"
    and off: "field_or (experiment_configs st ! i) ''previous_config_offset'' (JInt 0) = JInt n"
    and far: "int (length (experiment_configs st)) \<le> int i - n"
  shows "fst (run_experiment e j i st) = Inl (Raised IndexError)"
proof -
  define st1 where "st1 = st\<lparr>experiment_configs := (experiment_configs st)
        [i := with_default ''type'' (JStr ''none'') (experiment_configs st ! i)],
      trace := trace st @ default_notice ''type'' (JStr ''none'') (experiment_configs st ! i)\<rparr>"
  have i1: "i < length (experiment_configs st1)" using i by (simp add: st1_def)
  have off1: "field_or (experiment_configs st1 ! i) ''previous_config_offset'' (JInt 0) = JInt n"
    using i off by (simp add: st1_def field_or_with_default)
  have far1: "int (length (experiment_configs st1)) \<le> int i - n" using far by (simp add: st1_def)
  have "fst (resolve_previous_config e i st1) = Inl (Raised IndexError)"
    using off1 far1 i1
    by (simp add: resolve_previous_config_apply [OF i1] Let_def py_eq_zero_def py_int_minus_def
        py_index_position_def)
  then have "fst (then_do (resolve_previous_config e i) f st1) = Inl (Raised IndexError)" for f
    by (cases "resolve_previous_config e i st1") (simp add: then_do_apply)
  then show ?thesis
    using ty by (simp add: run_experiment_apply Let_def st1_def)
qed

text \<open>
  Claim C8, as amended. The experiments are not checked ahead of their execution: the loop
  over the positions \<open>i, rest\<close> runs experiment \<open>i\<close> on the state it is given and then,
  unless experiment \<open>i\<close> raised or left the loop, the loop over \<open>rest\<close> on the state that
  experiment \<open>i\<close> leaves; the actions of experiment \<open>i\<close>, training included, stay at the
  beginning of the trace whatever follows. Configuration errors surface during the
  execution. A field with no listed default raises \<^verbatim>\<open>UnboundLocalError\<close> at the call of
  \<^verbatim>\<open>get_config_default_value_if_none\<close> that resolves it while it is absent, and is returned
  as it is when present. An offset \<open>n\<close> that points forward (\<open>n < 0\<close>) to a position of the
  list, or to the experiment itself (\<open>n = len\<close>), is accepted and yields that
  configuration. An offset that leads past the end of the list makes the experiment that
  has it raise \<^verbatim>\<open>IndexError\<close> when it is run, if its type is not \<^verbatim>\<open>none\<close>; an experiment of
  type \<^verbatim>\<open>none\<close> is skipped whatever its offset is.
\<close>

theorem C8_no_validation_pass:
  "run_experiments e j (i # rest) st
     = (case run_experiment e j i st of
          (Inl (Raised x), st') \<Rightarrow> (Inl (Raised x), st')
        | (Inl LoopBreak, st') \<Rightarrow> (Inr (), st')
        | (Inl LoopContinue, st') \<Rightarrow> run_experiments e j rest st'
        | (Inr u, st') \<Rightarrow> run_experiments e j rest st')
   \<and> (\<exists>as. trace (snd (run_experiments e j (i # rest) st))
            = trace (snd (run_experiment e j i st)) @ as)
   \<and> (default_value_of now entry = None \<longrightarrow>
      get_config_default_value_if_none now cfg entry set_value
        = (case map_of cfg entry of Some v \<Rightarrow> Inr (v, cfg, []) | None \<Rightarrow> Inl UnboundLocalError))
   \<and> (i < length (experiment_configs st) \<longrightarrow>
      field_or (experiment_configs st ! i) ''previous_config_offset'' (JInt 0) = JInt n \<longrightarrow>
        (n < 0 \<and> int i - n < int (length (experiment_configs st))
           \<longrightarrow> fst (resolve_previous_config e i st) = Inr (Some (nat (int i - n))))
      \<and> (n = int (length (experiment_configs st))
           \<longrightarrow> fst (resolve_previous_config e i st) = Inr (Some i))
      \<and> (int (length (experiment_configs st)) \<le> int i - n
           \<longrightarrow> fst (resolve_previous_config e i st) = Inl (Raised IndexError)
             \<and> (\<not> py_eq_str (field_or (experiment_configs st ! i) ''type'' (JStr ''none'')) ''none''
                  \<longrightarrow> fst (run_experiment e j i st) = Inl (Raised IndexError))))
   \<and> (py_eq_str (field_or (experiment_configs st ! i) ''type'' (JStr ''none'')) ''none''
        \<longrightarrow> fst (run_experiment e j i st) = Inl LoopContinue)"
proof (intro conjI impI)
  show "run_experiments e j (i # rest) st
     = (case run_experiment e j i st of
          (Inl (Raised x), st') \<Rightarrow> (Inl (Raised x), st')
        | (Inl LoopBreak, st') \<Rightarrow> (Inr (), st')
        | (Inl LoopContinue, st') \<Rightarrow> run_experiments e j rest st'
        | (Inr u, st') \<Rightarrow> run_experiments e j rest st')"
    by simp
next
  show "\<exists>as. trace (snd (run_experiments e j (i # rest) st))
      = trace (snd (run_experiment e j i st)) @ as"
    by (rule run_experiments_after_first)
next
  assume "default_value_of now entry = None"
  then show "get_config_default_value_if_none now cfg entry set_value
      = (case map_of cfg entry of Some v \<Rightarrow> Inr (v, cfg, []) | None \<Rightarrow> Inl UnboundLocalError)"
    by (simp add: get_config_default_value_if_none_def split: option.splits)
next
  assume "i < length (experiment_configs st)"
    "field_or (experiment_configs st ! i) ''previous_config_offset'' (JInt 0) = JInt n"
    "n < 0 \<and> int i - n < int (length (experiment_configs st))"
  then show "fst (resolve_previous_config e i st) = Inr (Some (nat (int i - n)))"
    by (simp add: resolve_previous_config_apply Let_def py_eq_zero_def
        py_int_minus_def py_index_position_def)
next
  assume "i < length (experiment_configs st)"
    "field_or (experiment_configs st ! i) ''previous_config_offset'' (JInt 0) = JInt n"
    "n = int (length (experiment_configs st))"
  then show "fst (resolve_previous_config e i st) = Inr (Some i)"
    by (auto simp: resolve_previous_config_apply Let_def py_eq_zero_def
        py_int_minus_def py_index_position_def)
next
  assume "i < length (experiment_configs st)"
    "field_or (experiment_configs st ! i) ''previous_config_offset'' (JInt 0) = JInt n"
    "int (length (experiment_configs st)) \<le> int i - n"
  then show "fst (resolve_previous_config e i st) = Inl (Raised IndexError)"
    by (simp add: resolve_previous_config_apply Let_def py_eq_zero_def
        py_int_minus_def py_index_position_def)
next
  assume "i < length (experiment_configs st)"
    "field_or (experiment_configs st ! i) ''previous_config_offset'' (JInt 0) = JInt n"
    "int (length (experiment_configs st)) \<le> int i - n"
    "\<not> py_eq_str (field_or (experiment_configs st ! i) ''type'' (JStr ''none'')) ''none''"
  then show "fst (run_experiment e j i st) = Inl (Raised IndexError)"
    by (intro run_experiment_past_the_end)
next
  assume "py_eq_str (field_or (experiment_configs st ! i) ''type'' (JStr ''none'')) ''none''"
  then show "fst (run_experiment e j i st) = Inl LoopContinue"
    by (rule run_experiment_none)
qed

theorem C8_no_validation_pass_witness:
  "default_value_of ''now'' ''learning_rate'' = None
   \<and> get_config_default_value_if_none ''now'' (forward_reference_pipeline ! 1) ''learning_rate'' True
       = Inl UnboundLocalError
   \<and> 0 < length (experiment_configs (example_state forward_reference_pipeline))
   \<and> field_or (experiment_configs (example_state forward_reference_pipeline) ! 0)
       ''previous_config_offset'' (JInt 0) = JInt (- 1)
   \<and> fst (resolve_previous_config example_env 0 (example_state forward_reference_pipeline))
       = Inr (Some 1)
   \<and> fst (resolve_previous_config example_env 0
        (example_state [[(''type'', JStr ''har_full_train''), (''previous_config_offset'', JInt 1)]]))
       = Inr (Some 0)
   \<and> fst (resolve_previous_config example_env 0
        (example_state [[(''type'', JStr ''har_full_train''), (''previous_config_offset'', JInt (- 1))]]))
       = Inl (Raised IndexError)
   \<and> fst (run_experiment example_env 0 0
        (example_state [[(''type'', JStr ''har_full_train''), (''previous_config_offset'', JInt (- 1))]]))
       = Inl (Raised IndexError)
   \<and> fst (run_experiment example_env 0 0
        (example_state [[(''type'', JStr ''none''), (''previous_config_offset'', JInt (- 1))]]))
       = Inl LoopContinue
   \<and> (case run_experiments example_env 0 [0..<2] (example_state late_error_pipeline) of
        (r, st) \<Rightarrow> r = Inl (Raised IndexError) \<and> list_ex (is_training 0) (trace st))"
proof -
  have none: "default_value_of ''now'' ''learning_rate'' = None"
    by (simp add: default_value_of_def)
  have len: "0 < length (experiment_configs (example_state forward_reference_pipeline))"
    by (simp add: example_state_def forward_reference_pipeline_def)
  have off: "field_or (experiment_configs (example_state forward_reference_pipeline) ! 0)
      ''previous_config_offset'' (JInt 0) = JInt (- 1)"
    by (simp add: example_state_def forward_reference_pipeline_def field_or_def)
  note forward = C8_no_validation_pass [where now = "''now''" and entry = "''learning_rate''"
      and cfg = "forward_reference_pipeline ! 1" and set_value = True and i = 0
      and st = "example_state forward_reference_pipeline" and n = "- 1"
      and e = example_env and j = 0 and rest = "[]"]
  note self = C8_no_validation_pass [where now = "''now''" and entry = "''learning_rate''"
      and cfg = "forward_reference_pipeline ! 1" and set_value = True and i = 0
      and st = "example_state [[(''type'', JStr ''har_full_train''),
           (''previous_config_offset'', JInt 1)]]"
      and n = 1 and e = example_env and j = 0 and rest = "[]"]
  note past = C8_no_validation_pass [where now = "''now''" and entry = "''learning_rate''"
      and cfg = "forward_reference_pipeline ! 1" and set_value = True and i = 0
      and st = "example_state [[(''type'', JStr ''har_full_train''),
           (''previous_config_offset'', JInt (- 1))]]"
      and n = "- 1" and e = example_env and j = 0 and rest = "[]"]
  note skipped = C8_no_validation_pass [where now = "''now''" and entry = "''learning_rate''"
      and cfg = "forward_reference_pipeline ! 1" and set_value = True and i = 0
      and st = "example_state [[(''type'', JStr ''none''),
           (''previous_config_offset'', JInt (- 1))]]"
      and n = "- 1" and e = example_env and j = 0 and rest = "[]"]
  have a: "get_config_default_value_if_none ''now'' (forward_reference_pipeline ! 1) ''learning_rate'' True
       = Inl UnboundLocalError"
    using forward none by (simp add: forward_reference_pipeline_def)
  have b: "fst (resolve_previous_config example_env 0 (example_state forward_reference_pipeline))
       = Inr (Some 1)"
    using forward len off by (simp add: example_state_def forward_reference_pipeline_def)
  have c: "fst (resolve_previous_config example_env 0
        (example_state [[(''type'', JStr ''har_full_train''), (''previous_config_offset'', JInt 1)]]))
       = Inr (Some 0)"
    using self by (simp add: example_state_def field_or_def)
  have d: "fst (resolve_previous_config example_env 0
        (example_state [[(''type'', JStr ''har_full_train''), (''previous_config_offset'', JInt (- 1))]]))
       = Inl (Raised IndexError)"
    and d': "fst (run_experiment example_env 0 0
        (example_state [[(''type'', JStr ''har_full_train''), (''previous_config_offset'', JInt (- 1))]]))
       = Inl (Raised IndexError)"
    using past by (simp_all add: example_state_def field_or_def py_eq_str_def)
  have s: "fst (run_experiment example_env 0 0
        (example_state [[(''type'', JStr ''none''), (''previous_config_offset'', JInt (- 1))]]))
       = Inl LoopContinue"
    using skipped by (simp add: example_state_def field_or_def py_eq_str_def)
  have late: "(case run_experiments example_env 0 [0..<2] (example_state late_error_pipeline) of
        (r, st) \<Rightarrow> r = Inl (Raised IndexError) \<and> list_ex (is_training 0) (trace st))"
    by code_simp
  show ?thesis using none a len off b c d d' s late by simp
qed
subsection \<open>The unlabelled data within one fold\<close>

text \<open>
  The guarded call of lines 392 and 525 leaves a dictionary that has the entry
  \<^verbatim>\<open>'unlabelled'\<close> as it is; the call of lines 686 and 729 prepares the unlabelled data
  and assigns the entry whether it is there or not.
\<close>

lemma ensure_unlabelled_present:
  "''unlabelled'' \<in> set (prepared_datasets st) \<Longrightarrow> ensure_unlabelled e st = (Inr (), st)"
  by (simp add: ensure_unlabelled_def then_do_apply)

lemma load_unlabelled_dataset_trace:
  "''labelled'' \<in> set (prepared_datasets st) \<Longrightarrow>
     \<exists>as. trace (snd (load_unlabelled_dataset e st))
            = trace st @ PrepareUnlabelled # DatasetWrite ''unlabelled'' # as"
  by (simp add: load_unlabelled_dataset_def dataset_write_def when_do_def then_do_apply)

lemma evaluate_on_unlabelled_loads_again:
  assumes "''labelled'' \<in> set (prepared_datasets st)"
  shows "\<exists>as. trace (snd (evaluate_on_unlabelled e j i best_har_model st))
            = trace st @ PrepareUnlabelled # DatasetWrite ''unlabelled'' # as"
proof (cases "py_getitem (evaluate_unlabelled e j i) ''Confusion Matrix''")
  case (Inl x)
  then show ?thesis
    using assms
    by (auto simp: evaluate_on_unlabelled_def load_unlabelled_dataset_def dataset_write_def
        when_do_def then_do_apply)
next
  case (Inr cm)
  then show ?thesis
    using assms
    by (cases "np_add e (conv st ! i) cm")
      (auto simp: evaluate_on_unlabelled_def load_unlabelled_dataset_def dataset_write_def
        when_do_def then_do_apply)
qed

text \<open>
  Claim C3 at a list of three experiments: a \<^verbatim>\<open>transform_train\<close> experiment, which prepares
  the unlabelled data, and at position 2 an experiment with \<^verbatim>\<open>eval_har\<close>. The run ends
  normally, the unlabelled data have been prepared twice, and the entry \<^verbatim>\<open>'unlabelled'\<close> has
  been assigned four times, twice by each preparation.
\<close>

theorem C3_unlabelled_pool_loaded_again:
  "(case run_experiments example_env 0 [0..<3] (example_state transform_then_evaluate_pipeline) of
      (r, st) \<Rightarrow> r = Inr ()
        \<and> length (filter is_prepare_unlabelled (trace st)) = 2
        \<and> length (filter (is_dataset_write ''unlabelled'') (trace st)) = 4)"
  by code_simp
end
